theory Spec2Isabelle
  imports Complex_Main "HOL-Library.Word"
begin

unbundle bit_operations_syntax

section \<open>Conventions of the embedding\<close>

text \<open>
  The C sources of NeuroLock (\<^verbatim>\<open>utils.c\<close>, \<^verbatim>\<open>feature_extraction.c\<close>, \<^verbatim>\<open>template.c\<close>,
  \<^verbatim>\<open>hashing.c\<close>, \<^verbatim>\<open>capture.c\<close>) are embedded as follows.

  \<^item> A \<^verbatim>\<open>float\<close> that takes part in arithmetic is a \<^typ>\<open>real\<close>: the arithmetic is exact,
    so rounding, overflow to infinity and NaN are outside the model. A \<^verbatim>\<open>float\<close> that is
    only copied to and from a file is its 32-bit object representation. The element type of a
    feature vector is therefore a type parameter.
  \<^item> \<^verbatim>\<open>size_t\<close>, \<^verbatim>\<open>time_t\<close> and \<^verbatim>\<open>uint64_t\<close> are 64-bit words, \<^verbatim>\<open>uint32_t\<close> and the
    enum \<^verbatim>\<open>MentalTask\<close> (an \<^verbatim>\<open>int\<close> that a file may fill with any value) are 32-bit words,
    stored least significant byte first (the LP64 little-endian layout).
  \<^item> A pointer that the code tests against \<^verbatim>\<open>NULL\<close> is an \<open>option\<close>; a heap array is the
    list of its elements, whose length is the allocated capacity.
  \<^item> Every \<^verbatim>\<open>return -1\<close> (and the \<^verbatim>\<open>NULL\<close> of a failed allocation) is \<open>Inl Failed\<close>: the
    code has one failure code only. An access outside an allocated array, a dereferenced
    \<^verbatim>\<open>NULL\<close> and a float-to-integer cast out of range have no defined behaviour in C and are
    \<open>Inl Undefined_Behaviour\<close>.
  \<^item> \<^verbatim>\<open>malloc\<close> and \<^verbatim>\<open>calloc\<close> succeed when the allocator, a predicate on the number of
    bytes requested, says so. The clocks \<^verbatim>\<open>get_timestamp_ms()\<close> and \<^verbatim>\<open>time(NULL)\<close> are
    parameters. Logging is not modelled.
  \<^item> \<^verbatim>\<open>secure_wipe\<close> is taken as \<^verbatim>\<open>hashing.c\<close> compiles it for glibc and for Windows, the two
    platforms for which the function has a second clearing call; stdio streams are fully
    buffered, as streams on regular files are.
\<close>

type_synonym byte = "8 word"
type_synonym size_t = "64 word"
type_synonym MentalTask = "32 word"
type_synonym allocator = "nat \<Rightarrow> bool"

datatype error = Failed | Undefined_Behaviour

section \<open>config.h\<close>

definition TASK_EYES_CLOSED_REST :: MentalTask where "TASK_EYES_CLOSED_REST = 0"
definition TASK_EYES_OPEN_REST :: MentalTask where "TASK_EYES_OPEN_REST = 1"
definition TASK_MENTAL_ARITHMETIC :: MentalTask where "TASK_MENTAL_ARITHMETIC = 2"
definition TASK_MOTOR_IMAGERY :: MentalTask where "TASK_MOTOR_IMAGERY = 3"
definition TASK_VISUAL_IMAGERY :: MentalTask where "TASK_VISUAL_IMAGERY = 4"

definition SAMPLING_RATE :: real where "SAMPLING_RATE = 256"
definition FEATURE_VECTOR_SIZE :: size_t where "FEATURE_VECTOR_SIZE = 40"
definition WINDOW_SIZE :: nat where "WINDOW_SIZE = 256"

definition DELTA_LOW :: real where "DELTA_LOW = 1 / 2"
definition DELTA_HIGH :: real where "DELTA_HIGH = 4"
definition THETA_LOW :: real where "THETA_LOW = 4"
definition THETA_HIGH :: real where "THETA_HIGH = 8"
definition ALPHA_LOW :: real where "ALPHA_LOW = 8"
definition ALPHA_HIGH :: real where "ALPHA_HIGH = 13"
definition BETA_LOW :: real where "BETA_LOW = 13"
definition BETA_HIGH :: real where "BETA_HIGH = 30"
definition GAMMA_LOW :: real where "GAMMA_LOW = 30"
definition GAMMA_HIGH :: real where "GAMMA_HIGH = 100"

definition HIGHPASS_CUTOFF :: real where "HIGHPASS_CUTOFF = 1 / 2"
definition LOWPASS_CUTOFF :: real where "LOWPASS_CUTOFF = 50"
definition NOTCH_FREQ :: real where "NOTCH_FREQ = 50"

definition SIMILARITY_THRESHOLD :: real where "SIMILARITY_THRESHOLD = 85 / 100"

definition TEMPLATE_DIR :: string where "TEMPLATE_DIR = ''./templates''"

section \<open>Structures\<close>

text \<open>\<^verbatim>\<open>EEGData\<close> (capture.h): \<open>data\<close> holds \<open>num_channels * num_samples\<close> samples, channel
  after channel.\<close>

record EEGData =
  data :: "real list option"
  num_channels :: size_t
  num_samples :: size_t
  sampling_rate :: real
  eeg_timestamp :: "64 word"
  eeg_task_type :: MentalTask

text \<open>\<^verbatim>\<open>FeatureVector\<close> (feature_extraction.h); the fields \<^verbatim>\<open>size\<close>, \<^verbatim>\<open>task_type\<close> and
  \<^verbatim>\<open>timestamp\<close> carry the prefix \<open>fv_\<close>.\<close>

record 'f FeatureVector =
  features :: "'f list option"
  fv_size :: size_t
  fv_task_type :: MentalTask
  fv_timestamp :: "64 word"

text \<open>The array behind \<^verbatim>\<open>vector->features\<close>; a \<^verbatim>\<open>NULL\<close> pointer has no valid index.\<close>

definition buf :: "'f FeatureVector \<Rightarrow> 'f list" where
  "buf v = (case features v of None \<Rightarrow> [] | Some xs \<Rightarrow> xs)"

text \<open>\<^verbatim>\<open>AuthResult\<close> (template.h).\<close>

record AuthResult =
  authenticated :: int
  similarity_score :: real
  timestamp :: "64 word"
  attempts :: int

section \<open>Allocation\<close>

text \<open>\<^verbatim>\<open>calloc(n, sz)\<close>: fails when the product overflows \<^verbatim>\<open>size_t\<close> or the allocator
  refuses; the array returned is zero-filled.\<close>

definition calloc :: "allocator \<Rightarrow> nat \<Rightarrow> nat \<Rightarrow> ('a::zero) list option" where
  "calloc A n sz = (if n * sz < 2 ^ 64 \<and> A (n * sz) then Some (replicate n 0) else None)"

text \<open>\<^verbatim>\<open>eeg_data_alloc\<close> (capture.c): the structure is 48 bytes; the product of the two
  counts is computed in \<^verbatim>\<open>size_t\<close>.\<close>

definition eeg_data_alloc :: "allocator \<Rightarrow> size_t \<Rightarrow> size_t \<Rightarrow> EEGData option" where
  "eeg_data_alloc A nc ns =
     (if \<not> A 48 then None
      else case calloc A (unat (nc * ns)) 4 of
             None \<Rightarrow> None
           | Some xs \<Rightarrow> Some \<lparr>data = Some xs, num_channels = nc, num_samples = ns,
                              sampling_rate = SAMPLING_RATE, eeg_timestamp = 0,
                              eeg_task_type = TASK_EYES_CLOSED_REST\<rparr>)"

text \<open>\<^verbatim>\<open>feature_vector_alloc\<close> (feature_extraction.c): the structure is 32 bytes.\<close>

definition feature_vector_alloc :: "allocator \<Rightarrow> size_t \<Rightarrow> ('f::zero) FeatureVector option" where
  "feature_vector_alloc A n =
     (if \<not> A 32 then None
      else case calloc A (unat n) 4 of
             None \<Rightarrow> None
           | Some xs \<Rightarrow> Some \<lparr>features = Some xs, fv_size = n,
                              fv_task_type = TASK_EYES_CLOSED_REST, fv_timestamp = 0\<rparr>)"

section \<open>Release\<close>

text \<open>\<^verbatim>\<open>secure_wipe\<close> (hashing.c) returns at once for a null pointer or a size of zero.
  Otherwise the loop \<^verbatim>\<open>while (size--) *p++ = 0;\<close> clears the \<open>size\<close> bytes of the array and
  leaves \<^verbatim>\<open>size\<close> at \<^verbatim>\<open>SIZE_MAX\<close>, since the test that ends the loop decrements the zero it
  has found. The call that follows, \<^verbatim>\<open>explicit_bzero(ptr, size)\<close> under \<^verbatim>\<open>__GLIBC__\<close> and
  \<^verbatim>\<open>SecureZeroMemory(ptr, size)\<close> under \<^verbatim>\<open>_WIN32\<close>, is therefore asked to clear \<^verbatim>\<open>SIZE_MAX\<close>
  bytes from \<^verbatim>\<open>ptr\<close> on, which no array holds.\<close>

definition secure_wipe :: "'a list option \<Rightarrow> size_t \<Rightarrow> error + unit" where
  "secure_wipe ptr n =
     (case ptr of
        None \<Rightarrow> Inr ()
      | Some a \<Rightarrow> if n = 0 then Inr () else Inl Undefined_Behaviour)"

text \<open>\<^verbatim>\<open>eeg_data_free\<close> (capture.c) and \<^verbatim>\<open>feature_vector_free\<close> (feature_extraction.c) wipe
  the array, when there is one, before they release it; the sizes are computed in
  \<^verbatim>\<open>size_t\<close>.\<close>

definition eeg_data_free :: "EEGData option \<Rightarrow> error + unit" where
  "eeg_data_free d =
     (case d of
        None \<Rightarrow> Inr ()
      | Some e \<Rightarrow>
         (case data e of
            None \<Rightarrow> Inr ()
          | Some xs \<Rightarrow> secure_wipe (Some xs) (num_channels e * num_samples e * 4)))"

definition feature_vector_free :: "'f FeatureVector option \<Rightarrow> error + unit" where
  "feature_vector_free v =
     (case v of
        None \<Rightarrow> Inr ()
      | Some fv \<Rightarrow>
         (case features fv of
            None \<Rightarrow> Inr ()
          | Some xs \<Rightarrow> secure_wipe (Some xs) (fv_size fv * 4)))"

section \<open>utils.c: numeric primitives\<close>

text \<open>Each function takes the array from the pointer onwards and the element count; the
  loops run over the indices \<open>0..<size\<close> with the accumulator of the source.\<close>

definition calculate_mean :: "real list \<Rightarrow> nat \<Rightarrow> real" where
  "calculate_mean xs n =
     (if n = 0 then 0
      else foldl (\<lambda>sum i. sum + xs ! i) 0 [0..<n] / real n)"

definition calculate_std_dev :: "real list \<Rightarrow> nat \<Rightarrow> real" where
  "calculate_std_dev xs n =
     (if n = 0 then 0
      else let mean = calculate_mean xs n;
               sum_sq_diff = foldl (\<lambda>s i. let diff = xs ! i - mean in s + diff * diff) 0 [0..<n]
           in sqrt (sum_sq_diff / real n))"

definition dot_product :: "real list \<Rightarrow> real list \<Rightarrow> nat \<Rightarrow> real" where
  "dot_product vec1 vec2 n = foldl (\<lambda>result i. result + vec1 ! i * vec2 ! i) 0 [0..<n]"

definition vector_magnitude :: "real list \<Rightarrow> nat \<Rightarrow> real" where
  "vector_magnitude vec n = sqrt (foldl (\<lambda>sum_sq i. sum_sq + vec ! i * vec ! i) 0 [0..<n])"

section \<open>feature_extraction.c\<close>

subsection \<open>The preprocessing stages\<close>

text \<open>\<^verbatim>\<open>filter_bandpass\<close>, \<^verbatim>\<open>filter_notch\<close> and \<^verbatim>\<open>remove_eye_artifacts\<close> check their
  argument, log, and return 0 without touching the data.\<close>

definition filter_bandpass :: "EEGData option \<Rightarrow> real \<Rightarrow> real \<Rightarrow> error + EEGData" where
  "filter_bandpass d low_freq high_freq =
     (case d of None \<Rightarrow> Inl Failed
      | Some e \<Rightarrow> (case data e of None \<Rightarrow> Inl Failed | Some _ \<Rightarrow> Inr e))"

definition filter_notch :: "EEGData option \<Rightarrow> real \<Rightarrow> error + EEGData" where
  "filter_notch d notch_freq =
     (case d of None \<Rightarrow> Inl Failed
      | Some e \<Rightarrow> (case data e of None \<Rightarrow> Inl Failed | Some _ \<Rightarrow> Inr e))"

definition remove_eye_artifacts :: "EEGData option \<Rightarrow> error + EEGData" where
  "remove_eye_artifacts d =
     (case d of None \<Rightarrow> Inl Failed
      | Some e \<Rightarrow> (case data e of None \<Rightarrow> Inl Failed | Some _ \<Rightarrow> Inr e))"

text \<open>One round of the channel loop of \<^verbatim>\<open>normalize_signal\<close>: \<open>channel_data\<close> is the array
  from \<open>data + ch * num_samples\<close> onwards; mean and deviation are computed before the inner
  loop, which then rewrites the \<open>ns\<close> samples of the channel one by one.\<close>

definition normalize_channel :: "nat \<Rightarrow> real list \<Rightarrow> nat \<Rightarrow> real list" where
  "normalize_channel ns xs ch =
     (let channel_data = drop (ch * ns) xs;
          mean = calculate_mean channel_data ns;
          std_dev = calculate_std_dev channel_data ns;
          std_dev = (if std_dev < 1 / 1000000 then 1 else std_dev)
      in take (ch * ns) xs
         @ map (\<lambda>x. (x - mean) / std_dev) (take ns channel_data)
         @ drop ns channel_data)"

definition normalize_signal :: "EEGData option \<Rightarrow> error + EEGData" where
  "normalize_signal d =
     (case d of None \<Rightarrow> Inl Failed
      | Some e \<Rightarrow>
         (case data e of None \<Rightarrow> Inl Failed
          | Some xs \<Rightarrow>
             (let nc = unat (num_channels e); ns = unat (num_samples e)
              in if length xs < nc * ns then Inl Undefined_Behaviour
                 else Inr (e\<lparr>data := Some (foldl (normalize_channel ns) xs [0..<nc])\<rparr>))))"

subsection \<open>Spectrum and band power\<close>

text \<open>\<^verbatim>\<open>compute_fft\<close>: a discrete Fourier transform that writes the magnitudes of the
  first \<open>size / 2\<close> bins.\<close>

definition compute_fft :: "real list option \<Rightarrow> real list option \<Rightarrow> nat \<Rightarrow> error + real list" where
  "compute_fft input output n =
     (case input of None \<Rightarrow> Inl Failed
      | Some inp \<Rightarrow>
         (case output of None \<Rightarrow> Inl Failed
          | Some out \<Rightarrow>
             Inr (foldl (\<lambda>acc k.
                    let re = foldl (\<lambda>r m. r + inp ! m * cos (2 * pi * real k * real m / real n)) 0 [0..<n];
                        im = foldl (\<lambda>r m. r - inp ! m * sin (2 * pi * real k * real m / real n)) 0 [0..<n]
                    in acc[k := sqrt (re * re + im * im)])
                  out [0..<n div 2])))"

text \<open>The cast \<^verbatim>\<open>(size_t)x\<close> of a floating value truncates towards zero and is defined
  only when the truncated value fits.\<close>

definition size_t_of_float :: "real \<Rightarrow> nat option" where
  "size_t_of_float x = (if - 1 < x \<and> x < 2 ^ 64 then Some (nat \<lfloor>x\<rfloor>) else None)"

text \<open>One band: \<^verbatim>\<open>for (i = (size_t)(LOW / res); i < (size_t)(HIGH / res) && i < fft_size; i++)\<close>.\<close>

definition band_power :: "real list \<Rightarrow> real \<Rightarrow> real \<Rightarrow> real \<Rightarrow> nat \<Rightarrow> error + real" where
  "band_power fft_output low high freq_resolution fft_size =
     (if freq_resolution = 0 then Inl Undefined_Behaviour
      else case (size_t_of_float (low / freq_resolution), size_t_of_float (high / freq_resolution)) of
             (Some lo, Some hi) \<Rightarrow>
               Inr (foldl (\<lambda>p i. p + fft_output ! i * fft_output ! i) 0 [lo..<min hi fft_size])
           | _ \<Rightarrow> Inl Undefined_Behaviour)"

text \<open>One round of the channel loop of \<^verbatim>\<open>extract_band_power\<close>; the state is
  \<open>feature_idx\<close> and the output array. A channel is transformed only when the recording
  has at least \<open>WINDOW_SIZE\<close> samples; otherwise the round does nothing.\<close>

definition band_power_channel ::
  "EEGData \<Rightarrow> real list \<Rightarrow> nat \<times> real list \<Rightarrow> nat \<Rightarrow> error + nat \<times> real list" where
  "band_power_channel e xs st ch =
     (case st of (feature_idx, fs) \<Rightarrow>
        if unat (num_samples e) \<ge> WINDOW_SIZE then
          (let fft_size = WINDOW_SIZE div 2;
               channel_data = drop (ch * unat (num_samples e)) xs;
               freq_resolution = sampling_rate e / real WINDOW_SIZE
           in if length channel_data < WINDOW_SIZE \<or> length fs < feature_idx + 5
              then Inl Undefined_Behaviour
              else case compute_fft (Some channel_data) (Some (replicate fft_size 0)) WINDOW_SIZE of
                     Inl err \<Rightarrow> Inl err
                   | Inr fft_output \<Rightarrow>
                      (case (band_power fft_output DELTA_LOW DELTA_HIGH freq_resolution fft_size,
                             band_power fft_output THETA_LOW THETA_HIGH freq_resolution fft_size,
                             band_power fft_output ALPHA_LOW ALPHA_HIGH freq_resolution fft_size,
                             band_power fft_output BETA_LOW BETA_HIGH freq_resolution fft_size,
                             band_power fft_output GAMMA_LOW GAMMA_HIGH freq_resolution fft_size) of
                         (Inr delta_power, Inr theta_power, Inr alpha_power, Inr beta_power,
                          Inr gamma_power) \<Rightarrow>
                           Inr (feature_idx + 5,
                                fs[feature_idx := delta_power, feature_idx + 1 := theta_power,
                                   feature_idx + 2 := alpha_power, feature_idx + 3 := beta_power,
                                   feature_idx + 4 := gamma_power])
                       | _ \<Rightarrow> Inl Undefined_Behaviour))
        else Inr (feature_idx, fs))"

fun band_power_loop ::
  "EEGData \<Rightarrow> real list \<Rightarrow> nat \<times> real list \<Rightarrow> nat list \<Rightarrow> error + nat \<times> real list" where
  "band_power_loop e xs st [] = Inr st"
| "band_power_loop e xs st (ch # chs) =
     (case band_power_channel e xs st ch of
        Inl err \<Rightarrow> Inl err
      | Inr st' \<Rightarrow> band_power_loop e xs st' chs)"

text \<open>\<^verbatim>\<open>extract_band_power\<close>: the buffer for the spectrum takes \<open>WINDOW_SIZE / 2\<close> floats.\<close>

definition extract_band_power ::
  "allocator \<Rightarrow> EEGData option \<Rightarrow> real FeatureVector option \<Rightarrow> error + real FeatureVector" where
  "extract_band_power A d output =
     (case d of None \<Rightarrow> Inl Failed
      | Some e \<Rightarrow>
         (case data e of None \<Rightarrow> Inl Failed
          | Some xs \<Rightarrow>
             (case output of None \<Rightarrow> Inl Failed
              | Some out \<Rightarrow>
                 if \<not> A (WINDOW_SIZE div 2 * 4) then Inl Failed
                 else case band_power_loop e xs (0, buf out) [0..<unat (num_channels e)] of
                        Inl err \<Rightarrow> Inl err
                      | Inr (feature_idx, fs) \<Rightarrow>
                          Inr (out\<lparr>features := map_option (\<lambda>_. fs) (features out)\<rparr>))))"

text \<open>\<^verbatim>\<open>extract_features\<close> discards the return codes of the four preprocessing calls: a
  stage that returns -1 has left the working copy as it was, and the pipeline goes on. A
  stage that has run outside the array has no defined result, and neither has the
  pipeline.\<close>

definition after_stage :: "EEGData \<Rightarrow> error + EEGData \<Rightarrow> error + EEGData" where
  "after_stage before r =
     (case r of
        Inl Failed \<Rightarrow> Inr before
      | Inl Undefined_Behaviour \<Rightarrow> Inl Undefined_Behaviour
      | Inr after \<Rightarrow> Inr after)"

text \<open>\<^verbatim>\<open>extract_features\<close>, line by line: the working copy is allocated and filled by
  \<^verbatim>\<open>memcpy\<close>, the four stages and \<^verbatim>\<open>extract_band_power\<close> run on it, the task and the clock
  are stored in the output, the working copy is released by \<^verbatim>\<open>eeg_data_free\<close>, and the
  result of \<^verbatim>\<open>extract_band_power\<close> is returned.\<close>

definition extract_features ::
  "allocator \<Rightarrow> EEGData option \<Rightarrow> real FeatureVector option \<Rightarrow> 64 word
     \<Rightarrow> error + real FeatureVector" where
  "extract_features A d output now_ms =
     (case d of None \<Rightarrow> Inl Failed
      | Some e \<Rightarrow>
         (case data e of None \<Rightarrow> Inl Failed
          | Some xs \<Rightarrow>
             (case output of None \<Rightarrow> Inl Failed
              | Some out \<Rightarrow>
                 (case eeg_data_alloc A (num_channels e) (num_samples e) of
                    None \<Rightarrow> Inl Failed
                  | Some filtered_data \<Rightarrow>
                     if length xs < unat (num_channels e * num_samples e)
                     then Inl Undefined_Behaviour
                     else
                       (let f0 = filtered_data\<lparr>data := Some (take (unat (num_channels e * num_samples e)) xs),
                                                num_channels := num_channels e,
                                                num_samples := num_samples e,
                                                sampling_rate := sampling_rate e\<rparr>
                        in
                        (case after_stage f0 (filter_bandpass (Some f0) HIGHPASS_CUTOFF LOWPASS_CUTOFF) of
                           Inl err \<Rightarrow> Inl err
                         | Inr f1 \<Rightarrow>
                        (case after_stage f1 (filter_notch (Some f1) NOTCH_FREQ) of
                           Inl err \<Rightarrow> Inl err
                         | Inr f2 \<Rightarrow>
                        (case after_stage f2 (remove_eye_artifacts (Some f2)) of
                           Inl err \<Rightarrow> Inl err
                         | Inr f3 \<Rightarrow>
                        (case after_stage f3 (normalize_signal (Some f3)) of
                           Inl err \<Rightarrow> Inl err
                         | Inr f4 \<Rightarrow>
                        (case extract_band_power A (Some f4) (Some out) of
                           Inl Undefined_Behaviour \<Rightarrow> Inl Undefined_Behaviour
                         | result \<Rightarrow>
                            (case eeg_data_free (Some f4) of
                               Inl err \<Rightarrow> Inl err
                             | Inr _ \<Rightarrow>
                                (case result of
                                   Inl err \<Rightarrow> Inl err
                                 | Inr out' \<Rightarrow>
                                     Inr (out'\<lparr>fv_task_type := eeg_task_type e,
                                               fv_timestamp := now_ms\<rparr>)))))))))))))"

text \<open>\<^verbatim>\<open>average_feature_vectors\<close>: \<open>vectors\<close> is the array of \<open>num_vectors\<close> pointers (the length
  of the list is \<open>num_vectors\<close>). The sizes are compared before any element is read; the
  averaging loops then read \<open>size\<close> elements of every vector and write \<open>size\<close> elements of
  the output array.\<close>

definition average_feature_vectors ::
  "real FeatureVector list option \<Rightarrow> real FeatureVector option \<Rightarrow> 64 word
     \<Rightarrow> error + real FeatureVector" where
  "average_feature_vectors vectors output now_ms =
     (case vectors of None \<Rightarrow> Inl Failed
      | Some vs \<Rightarrow>
         (case output of None \<Rightarrow> Inl Failed
          | Some out \<Rightarrow>
             if length vs = 0 then Inl Failed
             else
               let n = fv_size (vs ! 0) in
               if list_ex (\<lambda>i. fv_size (vs ! i) \<noteq> n) [1..<length vs] then Inl Failed
               else if list_ex (\<lambda>v. length (buf v) < unat n) vs \<or> length (buf out) < unat n
               then Inl Undefined_Behaviour
               else
                 Inr (out\<lparr>features :=
                            map_option (\<lambda>_.
                              foldl (\<lambda>fs j.
                                 let sum = foldl (\<lambda>sum i. sum + buf (vs ! i) ! j) 0 [0..<length vs]
                                 in fs[j := sum / real (length vs)])
                               (buf out) [0..<unat n])
                              (features out),
                          fv_size := n,
                          fv_task_type := fv_task_type (vs ! 0),
                          fv_timestamp := now_ms\<rparr>)))"

section \<open>template.c: matching\<close>

text \<open>\<^verbatim>\<open>calculate_similarity\<close> returns a float; the failure value is \<open>- 1\<close>.\<close>

definition calculate_similarity ::
  "real FeatureVector option \<Rightarrow> real FeatureVector option \<Rightarrow> error + real" where
  "calculate_similarity vec1 vec2 =
     (case (vec1, vec2) of
        (Some v1, Some v2) \<Rightarrow>
          (case (features v1, features v2) of
             (Some f1, Some f2) \<Rightarrow>
               if fv_size v1 \<noteq> fv_size v2 then Inr (- 1)
               else if length f1 < unat (fv_size v1) \<or> length f2 < unat (fv_size v2)
               then Inl Undefined_Behaviour
               else
                 let dot = dot_product f1 f2 (unat (fv_size v1));
                     mag1 = vector_magnitude f1 (unat (fv_size v1));
                     mag2 = vector_magnitude f2 (unat (fv_size v2))
                 in if mag1 < 1 / 1000000 \<or> mag2 < 1 / 1000000 then Inr (- 1)
                    else
                      let similarity = dot / (mag1 * mag2);
                          similarity = (if similarity < 0 then 0 else similarity);
                          similarity = (if similarity > 1 then 1 else similarity)
                      in Inr similarity
           | _ \<Rightarrow> Inr (- 1))
      | _ \<Rightarrow> Inr (- 1))"

section \<open>template.c: the stored template\<close>

text \<open>\<^verbatim>\<open>HashData\<close> (hashing.h) and \<^verbatim>\<open>hash_data_alloc\<close> (hashing.c).\<close>

record HashData =
  hash :: "byte list option"
  hash_size :: size_t
  salt :: "byte list option"
  salt_size :: size_t

definition hash_data_alloc :: "allocator \<Rightarrow> size_t \<Rightarrow> size_t \<Rightarrow> HashData option" where
  "hash_data_alloc A hsize ssize =
     (if \<not> A 32 then None
      else case calloc A (unat hsize) 1 of
             None \<Rightarrow> None
           | Some h \<Rightarrow>
              (case calloc A (unat ssize) 1 of
                 None \<Rightarrow> None
               | Some s \<Rightarrow> Some \<lparr>hash = Some h, hash_size = hsize, salt = Some s, salt_size = ssize\<rparr>))"

text \<open>\<^verbatim>\<open>Template\<close> (template.h): \<open>username\<close> is the array \<^verbatim>\<open>char[64]\<close>; the two pointer
  fields carry the prefix \<open>t_\<close>.\<close>

record 'f Template =
  username :: "byte list"
  t_hash :: "HashData option"
  t_features :: "'f FeatureVector option"
  task_type :: MentalTask
  created_at :: "64 word"
  last_used :: "64 word"
  version :: "32 word"

text \<open>\<^verbatim>\<open>template_authenticate\<close>: \<open>now_ms\<close> is the clock read inside
  \<^verbatim>\<open>extract_features\<close>, \<open>now\<close> the value of \<^verbatim>\<open>time(NULL)\<close>. Both ways out of the function
  after the allocation pass through \<^verbatim>\<open>feature_vector_free(trial_features)\<close>.\<close>

definition template_authenticate ::
  "allocator \<Rightarrow> EEGData option \<Rightarrow> real Template option \<Rightarrow> AuthResult option
     \<Rightarrow> 64 word \<Rightarrow> 64 word \<Rightarrow> error + AuthResult" where
  "template_authenticate A trial template result now_ms now =
     (case (trial, template, result) of
        (Some tr, Some t, Some res) \<Rightarrow>
          (case feature_vector_alloc A FEATURE_VECTOR_SIZE of
             None \<Rightarrow> Inl Failed
           | Some trial_features \<Rightarrow>
              (case extract_features A trial (Some trial_features) now_ms of
                 Inl Undefined_Behaviour \<Rightarrow> Inl Undefined_Behaviour
               | Inl Failed \<Rightarrow>
                  (case feature_vector_free (Some trial_features) of
                     Inl err \<Rightarrow> Inl err
                   | Inr _ \<Rightarrow> Inl Failed)
               | Inr trial_features' \<Rightarrow>
                  (case calculate_similarity (Some trial_features') (t_features t) of
                     Inl err \<Rightarrow> Inl err
                   | Inr similarity \<Rightarrow>
                      (case feature_vector_free (Some trial_features') of
                         Inl err \<Rightarrow> Inl err
                       | Inr _ \<Rightarrow>
                           Inr (res\<lparr>similarity_score := similarity,
                                     timestamp := now,
                                     attempts := 1,
                                     authenticated :=
                                       (if similarity \<ge> SIMILARITY_THRESHOLD then 1 else 0)\<rparr>)))))
      | _ \<Rightarrow> Inl Failed)"

section \<open>template.c: persistence\<close>

subsection \<open>Bytes, files and streams\<close>

text \<open>A scalar of \<open>k\<close> bytes in memory and in the file, least significant byte first.\<close>

definition le_bytes :: "nat \<Rightarrow> 'a::len word \<Rightarrow> byte list" where
  "le_bytes k w = map (\<lambda>i. word_of_nat (unat w div 256 ^ i mod 256)) [0..<k]"

definition le_word :: "byte list \<Rightarrow> 'a::len word" where
  "le_word bs = word_of_nat (foldr (\<lambda>b n. unat b + 256 * n) bs 0)"

text \<open>An array of floats seen through its bytes, four per element.\<close>

fun floats_of_bytes :: "byte list \<Rightarrow> 32 word list" where
  "floats_of_bytes (a # b # c # d # rest) = le_word [a, b, c, d] # floats_of_bytes rest"
| "floats_of_bytes _ = []"

text \<open>The file system: the content of every regular file, the directories, which
  directories \<^verbatim>\<open>mkdir\<close> can create, and which paths \<^verbatim>\<open>fopen(path, "wb")\<close> can open.\<close>

record filesystem =
  files :: "string \<rightharpoonup> byte list"
  dirs :: "string set"
  mkdir_ok :: "string \<Rightarrow> bool"
  writable :: "string \<Rightarrow> bool"

text \<open>\<^verbatim>\<open>create_directory\<close> (utils.c): when \<^verbatim>\<open>stat\<close> finds nothing under the path, whether a
  directory or a file, the directory is made with \<^verbatim>\<open>mkdir(path, 0700)\<close>.\<close>

definition create_directory :: "filesystem \<Rightarrow> string \<Rightarrow> error + filesystem" where
  "create_directory fs path =
     (if path \<in> dirs fs \<or> files fs path \<noteq> None then Inr fs
      else if mkdir_ok fs path then Inr (fs\<lparr>dirs := insert path (dirs fs)\<rparr>)
      else Inl Failed)"

text \<open>\<^verbatim>\<open>fopen(path, "wb")\<close> creates the file or cuts it to length zero.\<close>

definition fopen_wb :: "filesystem \<Rightarrow> string \<Rightarrow> filesystem option" where
  "fopen_wb fs path = (if writable fs path then Some (fs\<lparr>files := (files fs)(path \<mapsto> [])\<rparr>)
                       else None)"

text \<open>A stream opened for reading: the content of the file and the position.
  \<^verbatim>\<open>fread\<close> delivers the bytes that are there, at most the number asked for, and advances
  by what it delivered; the bytes it could not deliver leave their destination as it was
  (\<open>overlay\<close>). \<^verbatim>\<open>fseek(fp, off, SEEK_CUR)\<close> fails, and leaves the position, when the
  target is negative. The code looks at neither return value.\<close>

type_synonym stream = "byte list \<times> nat"

definition fread :: "nat \<Rightarrow> stream \<Rightarrow> byte list \<times> stream" where
  "fread n s = (case s of (content, pos) \<Rightarrow>
                  let bs = take n (drop pos content) in (bs, (content, pos + length bs)))"

definition fseek_cur :: "int \<Rightarrow> stream \<Rightarrow> stream" where
  "fseek_cur off s = (case s of (content, pos) \<Rightarrow>
                        if int pos + off < 0 then s else (content, nat (int pos + off)))"

definition overlay :: "'a list \<Rightarrow> 'a list \<Rightarrow> 'a list" where
  "overlay new old = new @ drop (length new) old"

definition store_le :: "nat \<Rightarrow> byte list \<Rightarrow> 'a::len word \<Rightarrow> 'a word" where
  "store_le k bs old = le_word (overlay bs (le_bytes k old))"

subsection \<open>template\_save\<close>

text \<open>The payloads of the eleven \<^verbatim>\<open>fwrite\<close> calls, in the order of the source. The
  username array is written whole (64 bytes; a shorter list stands for the array padded
  with zero bytes).\<close>

definition template_save_writes ::
  "32 word Template \<Rightarrow> 32 word FeatureVector \<Rightarrow> HashData \<Rightarrow> byte list list" where
  "template_save_writes t fv h =
     [le_bytes 4 (version t),
      take 64 (username t @ replicate 64 0),
      le_bytes 4 (task_type t),
      le_bytes 8 (created_at t),
      le_bytes 8 (last_used t),
      le_bytes 8 (fv_size fv),
      concat (map (le_bytes 4) (take (unat (fv_size fv)) (buf fv))),
      le_bytes 8 (hash_size h),
      take (unat (hash_size h)) (case hash h of None \<Rightarrow> [] | Some bs \<Rightarrow> bs),
      le_bytes 8 (salt_size h),
      take (unat (salt_size h)) (case salt h of None \<Rightarrow> [] | Some bs \<Rightarrow> bs)]"

text \<open>\<^verbatim>\<open>template_save\<close> up to and including \<^verbatim>\<open>fopen\<close>: the two null checks,
  \<^verbatim>\<open>create_directory(TEMPLATE_DIR)\<close>, and the opening of the destination itself. The
  eleven \<^verbatim>\<open>fwrite\<close> calls that follow fill the buffer of the stream; until the buffer is
  flushed the file system stays as this function returns it.\<close>

definition template_save_open ::
  "filesystem \<Rightarrow> 32 word Template option \<Rightarrow> string option \<Rightarrow> error + filesystem" where
  "template_save_open fs template filepath =
     (case (template, filepath) of
        (Some t, Some path) \<Rightarrow>
          (case create_directory fs TEMPLATE_DIR of
             Inl err \<Rightarrow> Inl err
           | Inr fs1 \<Rightarrow>
              (case fopen_wb fs1 path of
                 None \<Rightarrow> Inl Failed
               | Some fs2 \<Rightarrow> Inr fs2))
      | _ \<Rightarrow> Inl Failed)"

text \<open>\<^verbatim>\<open>template_save\<close>: after the opening, the eleven payloads are read from the
  template (the pointers \<^verbatim>\<open>features\<close> and \<^verbatim>\<open>hash\<close> are not tested) and reach the file when
  \<^verbatim>\<open>fclose\<close> flushes the stream. The results of \<^verbatim>\<open>fwrite\<close> and \<^verbatim>\<open>fclose\<close> are not checked
  by the code; the writes are taken to succeed.\<close>

definition template_save ::
  "filesystem \<Rightarrow> 32 word Template option \<Rightarrow> string option \<Rightarrow> error + filesystem" where
  "template_save fs template filepath =
     (case template_save_open fs template filepath of
        Inl err \<Rightarrow> Inl err
      | Inr fs2 \<Rightarrow>
         (case (template, filepath) of
            (Some t, Some path) \<Rightarrow>
              (case (t_features t, t_hash t) of
                 (Some fv, Some h) \<Rightarrow>
                   if length (buf fv) < unat (fv_size fv)
                      \<or> length (case hash h of None \<Rightarrow> [] | Some bs \<Rightarrow> bs) < unat (hash_size h)
                      \<or> length (case salt h of None \<Rightarrow> [] | Some bs \<Rightarrow> bs) < unat (salt_size h)
                   then Inl Undefined_Behaviour
                   else Inr (fs2\<lparr>files := (files fs2)(path \<mapsto>
                               concat (template_save_writes t fv h))\<rparr>)
               | _ \<Rightarrow> Inl Undefined_Behaviour)
          | _ \<Rightarrow> Inl Failed))"

subsection \<open>template\_load\<close>

text \<open>The three locals \<^verbatim>\<open>feature_size\<close>, \<^verbatim>\<open>hash_size\<close> and \<^verbatim>\<open>salt_size\<close> are not
  initialised: what they hold before \<^verbatim>\<open>fread\<close> fills them is a parameter.\<close>

record load_locals =
  l_feature_size :: size_t
  l_hash_size :: size_t
  l_salt_size :: size_t

text \<open>\<^verbatim>\<open>template_load\<close>, line by line. \<open>out\<close> is the structure the caller passes in, whose
  fields keep their bytes where the file is too short. After reading \<^verbatim>\<open>hash_size\<close> the
  code reads the next eight bytes as \<^verbatim>\<open>salt_size\<close>, allocates, and then moves the
  position three times with \<^verbatim>\<open>fseek\<close>: back by 8, back by \<^verbatim>\<open>16 + hash_size\<close>, forward by 8.
  When \<^verbatim>\<open>hash_data_alloc\<close> fails, the feature vector just read is released by
  \<^verbatim>\<open>feature_vector_free\<close> before the function returns -1.\<close>

definition template_load ::
  "filesystem \<Rightarrow> allocator \<Rightarrow> load_locals \<Rightarrow> string option \<Rightarrow> 32 word Template option
     \<Rightarrow> error + 32 word Template" where
  "template_load fs A g filepath output =
     (case (filepath, output) of
        (Some path, Some out) \<Rightarrow>
          (case files fs path of
             None \<Rightarrow> Inl Failed
           | Some content \<Rightarrow>
              (let (b_version, s1) = fread 4 (content, 0);
                   (b_username, s2) = fread 64 s1;
                   (b_task, s3) = fread 4 s2;
                   (b_created, s4) = fread 8 s3;
                   (b_last, s5) = fread 8 s4;
                   (b_fsize, s6) = fread 8 s5;
                   feature_size = store_le 8 b_fsize (l_feature_size g)
               in (case feature_vector_alloc A feature_size of
                     None \<Rightarrow> Inl Failed
                   | Some fv \<Rightarrow>
                      (let (b_feat, s7) = fread (4 * unat feature_size) s6;
                           fv' = fv\<lparr>features :=
                                      Some (floats_of_bytes
                                             (overlay b_feat (concat (map (le_bytes 4) (buf fv)))))\<rparr>;
                           (b_hsize, s8) = fread 8 s7;
                           hsize = store_le 8 b_hsize (l_hash_size g);
                           (b_ssize, s9) = fread 8 s8;
                           ssize = store_le 8 b_ssize (l_salt_size g)
                       in (case hash_data_alloc A hsize ssize of
                             None \<Rightarrow>
                               (case feature_vector_free (Some fv') of
                                  Inl err \<Rightarrow> Inl err
                                | Inr _ \<Rightarrow> Inl Failed)
                           | Some h \<Rightarrow>
                              (if 16 + hsize = (2 ^ 63 :: size_t) then Inl Undefined_Behaviour
                               else
                                (let s10 = fseek_cur (- 8) s9;
                                     (b_ssize2, s11) = fread 8 s10;
                                     h1 = h\<lparr>salt_size := store_le 8 b_ssize2 (salt_size h)\<rparr>;
                                     s12 = fseek_cur (- sint (16 + hsize)) s11;
                                     (b_hash, s13) = fread (unat hsize) s12;
                                     h2 = h1\<lparr>hash := map_option (overlay b_hash) (hash h1)\<rparr>;
                                     s14 = fseek_cur 8 s13;
                                     (b_salt, s15) = fread (unat ssize) s14;
                                     h3 = h2\<lparr>salt := map_option (overlay b_salt) (salt h2)\<rparr>
                                 in Inr (out\<lparr>version := store_le 4 b_version (version out),
                                              username := overlay b_username (username out),
                                              task_type := store_le 4 b_task (task_type out),
                                              created_at := store_le 8 b_created (created_at out),
                                              last_used := store_le 8 b_last (last_used out),
                                              t_features := Some fv',
                                              t_hash := Some h3\<rparr>))))))))
      | _ \<Rightarrow> Inl Failed)"

section \<open>Reference notions of the specification\<close>

text \<open>The specification speaks of the cosine similarity \<open>dot(a,b) / (\<parallel>a\<parallel> \<sqdot> \<parallel>b\<parallel>)\<close> of two
  vectors of \<open>n\<close> elements. These two definitions follow its words, not the code; the code
  is compared with them.\<close>

definition l2_norm :: "real list \<Rightarrow> nat \<Rightarrow> real" where
  "l2_norm a n = sqrt (\<Sum>i<n. (a ! i)\<^sup>2)"

definition cosine_similarity :: "real list \<Rightarrow> real list \<Rightarrow> nat \<Rightarrow> real" where
  "cosine_similarity a b n = (\<Sum>i<n. a ! i * b ! i) / (l2_norm a n * l2_norm b n)"

section \<open>Auxiliary notions for the statements\<close>

text \<open>An allocator that grants every request.\<close>

definition unbounded_memory :: allocator where
  "unbounded_memory n = True"

text \<open>The working copy that \<^verbatim>\<open>extract_features\<close> hands to \<^verbatim>\<open>extract_band_power\<close>: the
  first \<open>num_channels * num_samples\<close> samples of the input, normalised channel by channel, in
  a structure fresh from \<^verbatim>\<open>eeg_data_alloc\<close>.\<close>

definition normalized_copy :: "EEGData \<Rightarrow> real list \<Rightarrow> EEGData" where
  "normalized_copy e xs =
     \<lparr>data = Some (foldl (normalize_channel (unat (num_samples e)))
                     (take (unat (num_channels e) * unat (num_samples e)) xs)
                     [0..<unat (num_channels e)]),
      num_channels = num_channels e, num_samples = num_samples e,
      sampling_rate = sampling_rate e, eeg_timestamp = 0,
      eeg_task_type = TASK_EYES_CLOSED_REST\<rparr>"

text \<open>The samples of channel \<open>ch\<close> in the flat array, and what the inner loop of
  \<^verbatim>\<open>normalize_signal\<close> makes of one channel: every sample has the mean subtracted and is
  divided by the standard deviation, or by 1 when the deviation is below \<open>10\<^sup>-\<^sup>6\<close>.\<close>

definition channel :: "nat \<Rightarrow> real list \<Rightarrow> nat \<Rightarrow> real list" where
  "channel ns xs ch = take ns (drop (ch * ns) xs)"

definition centre_and_scale :: "real list \<Rightarrow> real list" where
  "centre_and_scale c =
     (let mean = calculate_mean c (length c);
          std_dev = calculate_std_dev c (length c);
          std_dev = (if std_dev < 1 / 1000000 then 1 else std_dev)
      in map (\<lambda>x. (x - mean) / std_dev) c)"

section \<open>Round trip, length fields and example data\<close>

text \<open>An allocator that grants every request of at most \<open>m\<close> bytes.\<close>

definition memory_limit :: "nat \<Rightarrow> allocator" where
  "memory_limit m n = (n \<le> m)"

text \<open>\<^verbatim>\<open>template_alloc\<close> (template.c): \<^verbatim>\<open>calloc(1, sizeof(Template))\<close>, 112 bytes, every field zero.\<close>

definition template_alloc :: "allocator \<Rightarrow> ('f::zero) Template option" where
  "template_alloc A =
     (if \<not> A 112 then None
      else Some \<lparr>username = replicate 64 0, t_hash = None, t_features = None, task_type = 0,
                 created_at = 0, last_used = 0, version = 0\<rparr>)"

text \<open>The round trip \<open>load(save(template))\<close> of the specification: the template is saved to
  \<open>path\<close> and the file is loaded into \<open>out\<close>.\<close>

definition save_then_load ::
  "filesystem \<Rightarrow> allocator \<Rightarrow> load_locals \<Rightarrow> 32 word Template \<Rightarrow> string \<Rightarrow> 32 word Template option
     \<Rightarrow> error + 32 word Template" where
  "save_then_load fs A g t path out =
     (case template_save fs (Some t) (Some path) of
        Inl err \<Rightarrow> Inl err
      | Inr fs' \<Rightarrow> template_load fs' A g (Some path) out)"

text \<open>The length fields as \<^verbatim>\<open>template_load\<close> reads them: the feature count at offset 88,
  after which it takes the next eight bytes as \<^verbatim>\<open>hash_size\<close> and the eight bytes after
  those as \<^verbatim>\<open>salt_size\<close>. Bytes that the file does not have leave the local as it was.\<close>

definition load_feature_size :: "byte list \<Rightarrow> load_locals \<Rightarrow> size_t" where
  "load_feature_size content g = store_le 8 (take 8 (drop 88 content)) (l_feature_size g)"

definition load_hash_size :: "byte list \<Rightarrow> load_locals \<Rightarrow> size_t" where
  "load_hash_size content g =
     store_le 8 (take 8 (drop (96 + 4 * unat (load_feature_size content g)) content)) (l_hash_size g)"

definition load_salt_size :: "byte list \<Rightarrow> load_locals \<Rightarrow> size_t" where
  "load_salt_size content g =
     store_le 8 (take 8 (drop (104 + 4 * unat (load_feature_size content g)) content)) (l_salt_size g)"

text \<open>Example data: a file system without files and directories in which every directory
  can be made and every path can be written, and a
  template of the shape \<^verbatim>\<open>template_create\<close> produces: user \<open>alice\<close>, forty band powers
  (eight channels, five bands, as IEEE-754 bit patterns), a 32-byte digest and a 32-byte
  salt. \<open>low_hash\<close> is the same hash data with a digest whose first eight bytes are
  \<open>32, 0, 0, 0, 0, 0, 0, 0\<close>.\<close>

definition empty_disk :: filesystem where
  "empty_disk = \<lparr>files = (\<lambda>p. None), dirs = {}, mkdir_ok = (\<lambda>p. True),
                  writable = (\<lambda>p. True)\<rparr>"

definition enrolled_features :: "32 word FeatureVector" where
  "enrolled_features =
     \<lparr>features = Some
       [1123090432, 1117814784, 1133903872, 1110900736, 1093140480,
        1123221504, 1117945856, 1133936640, 1111162880, 1094189056,
        1123352576, 1118076928, 1133969408, 1111425024, 1095237632,
        1123483648, 1118208000, 1134002176, 1111687168, 1096286208,
        1123614720, 1118339072, 1134034944, 1111949312, 1097334784,
        1123745792, 1118470144, 1134067712, 1112211456, 1098383360,
        1123876864, 1118601216, 1134100480, 1112473600, 1099169792,
        1124007936, 1118732288, 1134133248, 1112735744, 1099694080],
      fv_size = 40, fv_task_type = 0, fv_timestamp = 1700000000000\<rparr>"

definition enrolled_template :: "32 word Template" where
  "enrolled_template =
     \<lparr>username =
       [97, 108, 105, 99, 101, 0, 0, 0, 0, 0, 0, 0, 0, 0, 0, 0,
        0, 0, 0, 0, 0, 0, 0, 0, 0, 0, 0, 0, 0, 0, 0, 0,
        0, 0, 0, 0, 0, 0, 0, 0, 0, 0, 0, 0, 0, 0, 0, 0,
        0, 0, 0, 0, 0, 0, 0, 0, 0, 0, 0, 0, 0, 0, 0, 0],
      t_hash = Some
        \<lparr>hash = Some
           [186, 120, 22, 191, 143, 1, 207, 234, 65, 65, 64, 222, 93, 174, 34, 35,
            176, 3, 97, 163, 150, 23, 122, 156, 180, 16, 255, 97, 242, 0, 21, 173],
         hash_size = 32,
         salt = Some
           [99, 71, 154, 214, 154, 9, 11, 37, 130, 119, 236, 143, 186, 111, 153, 65,
            154, 47, 251, 36, 137, 129, 81, 6, 87, 201, 68, 204, 209, 20, 142, 151],
         salt_size = 32\<rparr>,
      t_features = Some enrolled_features,
      task_type = 0, created_at = 1700000000, last_used = 1700000000, version = 1\<rparr>"

definition low_hash :: HashData where
  "low_hash =
     \<lparr>hash = Some
        [32, 0, 0, 0, 0, 0, 0, 0, 65, 65, 64, 222, 93, 174, 34, 35,
         176, 3, 97, 163, 150, 23, 122, 156, 180, 16, 255, 97, 242, 0, 21, 173],
      hash_size = 32,
      salt = Some
        [99, 71, 154, 214, 154, 9, 11, 37, 130, 119, 236, 143, 186, 111, 153, 65,
         154, 47, 251, 36, 137, 129, 81, 6, 87, 201, 68, 204, 209, 20, 142, 151],
      salt_size = 32\<rparr>"

text \<open>The disk after saving the template with \<open>low_hash\<close>, and a disk on which a file is
  cut to its first \<open>n\<close> bytes.\<close>

definition saved_disk :: filesystem where
  "saved_disk =
     (case template_save empty_disk (Some (enrolled_template\<lparr>t_hash := Some low_hash\<rparr>))
             (Some ''./templates/alice.nlt'') of
        Inr fs \<Rightarrow> fs
      | Inl err \<Rightarrow> empty_disk)"

definition truncate_file :: "string \<Rightarrow> nat \<Rightarrow> filesystem \<Rightarrow> filesystem" where
  "truncate_file path n fs = fs\<lparr>files := (files fs)(path := map_option (take n) (files fs path))\<rparr>"

section \<open>Auxiliary lemmas\<close>

lemma stub_ok:
  "data e = Some xs \<Longrightarrow> filter_bandpass (Some e) lo hi = Inr e \<and> filter_notch (Some e) f = Inr e \<and> remove_eye_artifacts (Some e) = Inr e"
  by (simp add: filter_bandpass_def filter_notch_def remove_eye_artifacts_def)

lemma band_power_loop_short:
  "unat (num_samples e) < WINDOW_SIZE \<Longrightarrow> band_power_loop e xs st chs = Inr st"
  by (induction chs arbitrary: st) (auto simp: band_power_channel_def split: prod.splits)

lemma extract_band_power_short:
  assumes "data e = Some xs" "unat (num_samples e) < WINDOW_SIZE" "A (WINDOW_SIZE div 2 * 4)"
  shows "extract_band_power A (Some e) (Some out) = Inr out"
  using assms by (cases "features out") (simp_all add: extract_band_power_def band_power_loop_short buf_def)

lemma length_normalize_channel [simp]:
  "length (normalize_channel ns xs ch) = length xs"
proof -
  have "length (take ns (drop (ch * ns) xs)) + length (drop ns (drop (ch * ns) xs)) = length (drop (ch * ns) xs)"
    by (metis append_take_drop_id length_append)
  moreover have "length (take (ch * ns) xs) + length (drop (ch * ns) xs) = length xs"
    by (metis append_take_drop_id length_append)
  ultimately show ?thesis
    unfolding normalize_channel_def Let_def by (simp only: length_append length_map) 
qed

lemma length_normalize_fold [simp]:
  "length (foldl (normalize_channel ns) xs chs) = length xs"
  by (induction chs arbitrary: xs) simp_all

lemma size_t_of_float_ok: "0 \<le> x \<Longrightarrow> x < 2 ^ 64 \<Longrightarrow> size_t_of_float x = Some (nat \<lfloor>x\<rfloor>)"
  by (simp add: size_t_of_float_def)

lemma band_power_total:
  assumes "0 < r" "100 / r < 2 ^ 64" "0 \<le> lo" "lo \<le> 100" "0 \<le> hi" "hi \<le> 100"
  shows "\<exists>p. band_power f lo hi r n = Inr p"
proof -
  have "lo / r \<le> 100 / r" "hi / r \<le> 100 / r"
    using assms by (simp_all add: divide_right_mono)
  then have "lo / r < 2 ^ 64" "hi / r < 2 ^ 64" "0 \<le> lo / r" "0 \<le> hi / r"
    using assms by simp_all
  then show ?thesis
    using assms(1) by (simp add: band_power_def size_t_of_float_ok)
qed

lemma compute_fft_total: "\<exists>f. compute_fft (Some a) (Some b) n = Inr f"
  by (simp add: compute_fft_def)

lemma band_power_channel_total:
  assumes "WINDOW_SIZE \<le> unat (num_samples e)"
    and "WINDOW_SIZE \<le> length (drop (ch * unat (num_samples e)) xs)"
    and "idx + 5 \<le> length fs"
    and "0 < sampling_rate e" "25600 / sampling_rate e < 2 ^ 64"
  shows "\<exists>fs'. band_power_channel e xs (idx, fs) ch = Inr (idx + 5, fs') \<and> length fs' = length fs"
proof -
  let ?r = "sampling_rate e / real WINDOW_SIZE"
  have r: "0 < ?r" "100 / ?r < 2 ^ 64"
    using assms(4,5) by (simp_all add: WINDOW_SIZE_def)
  obtain f where f: "compute_fft (Some (drop (ch * unat (num_samples e)) xs))
      (Some (replicate (WINDOW_SIZE div 2) 0)) WINDOW_SIZE = Inr f"
    using compute_fft_total by blast
  obtain p1 where p1: "band_power f DELTA_LOW DELTA_HIGH ?r (WINDOW_SIZE div 2) = Inr p1"
    using band_power_total [OF r, of DELTA_LOW DELTA_HIGH] by (auto simp: DELTA_LOW_def DELTA_HIGH_def)
  obtain p2 where p2: "band_power f THETA_LOW THETA_HIGH ?r (WINDOW_SIZE div 2) = Inr p2"
    using band_power_total [OF r, of THETA_LOW THETA_HIGH] by (auto simp: THETA_LOW_def THETA_HIGH_def)
  obtain p3 where p3: "band_power f ALPHA_LOW ALPHA_HIGH ?r (WINDOW_SIZE div 2) = Inr p3"
    using band_power_total [OF r, of ALPHA_LOW ALPHA_HIGH] by (auto simp: ALPHA_LOW_def ALPHA_HIGH_def)
  obtain p4 where p4: "band_power f BETA_LOW BETA_HIGH ?r (WINDOW_SIZE div 2) = Inr p4"
    using band_power_total [OF r, of BETA_LOW BETA_HIGH] by (auto simp: BETA_LOW_def BETA_HIGH_def)
  obtain p5 where p5: "band_power f GAMMA_LOW GAMMA_HIGH ?r (WINDOW_SIZE div 2) = Inr p5"
    using band_power_total [OF r, of GAMMA_LOW GAMMA_HIGH] by (auto simp: GAMMA_LOW_def GAMMA_HIGH_def)
  show ?thesis
    using assms(1,2,3) f p1 p2 p3 p4 p5
    unfolding band_power_channel_def by (simp add: Let_def)
qed

lemma band_power_loop_total:
  assumes "WINDOW_SIZE \<le> unat (num_samples e)"
    and "\<forall>ch\<in>set chs. WINDOW_SIZE \<le> length (drop (ch * unat (num_samples e)) xs)"
    and "idx + 5 * length chs \<le> length fs"
    and "0 < sampling_rate e" "25600 / sampling_rate e < 2 ^ 64"
  shows "\<exists>fs'. band_power_loop e xs (idx, fs) chs = Inr (idx + 5 * length chs, fs') \<and> length fs' = length fs"
  using assms(2,3)
proof (induction chs arbitrary: idx fs)
  case Nil
  then show ?case by simp
next
  case (Cons ch chs)
  obtain fs1 where s: "band_power_channel e xs (idx, fs) ch = Inr (idx + 5, fs1)" "length fs1 = length fs"
    using band_power_channel_total [OF assms(1) _ _ assms(4,5), of ch xs idx fs] Cons.prems by auto
  have "\<exists>fs'. band_power_loop e xs (idx + 5, fs1) chs = Inr (idx + 5 + 5 * length chs, fs') \<and> length fs' = length fs1"
    using Cons.prems s(2) by (intro Cons.IH) auto
  then show ?case using s by (auto simp: algebra_simps)
qed

lemma extract_band_power_total:
  assumes d: "data e = Some xs"
    and len: "unat (num_channels e) * unat (num_samples e) \<le> length xs"
    and A: "A (WINDOW_SIZE div 2 * 4)"
    and cap: "WINDOW_SIZE \<le> unat (num_samples e) \<Longrightarrow> 5 * unat (num_channels e) \<le> length (buf out)"
    and sr: "0 < sampling_rate e" "25600 / sampling_rate e < 2 ^ 64"
  shows "\<exists>fs. extract_band_power A (Some e) (Some out)
                 = Inr (out\<lparr>features := map_option (\<lambda>_. fs) (features out)\<rparr>)
              \<and> length fs = length (buf out)"
proof (cases "WINDOW_SIZE \<le> unat (num_samples e)")
  case False
  then have "band_power_loop e xs (0, buf out) [0..<unat (num_channels e)] = Inr (0, buf out)"
    by (simp add: band_power_loop_short)
  then show ?thesis using d A by (auto simp: extract_band_power_def)
next
  case True
  let ?nc = "unat (num_channels e)" and ?ns = "unat (num_samples e)"
  have win: "\<forall>ch\<in>set [0..<?nc]. WINDOW_SIZE \<le> length (drop (ch * ?ns) xs)"
  proof
    fix ch assume "ch \<in> set [0..<?nc]"
    then have "ch + 1 \<le> ?nc" by simp
    then have "(ch + 1) * ?ns \<le> ?nc * ?ns" by (rule mult_le_mono1)
    then have "ch * ?ns + ?ns \<le> length xs" using len by simp
    then show "WINDOW_SIZE \<le> length (drop (ch * ?ns) xs)" using True by simp
  qed
  obtain fs where "band_power_loop e xs (0, buf out) [0..<?nc] = Inr (0 + 5 * length [0..<?nc], fs)"
      "length fs = length (buf out)"
    using band_power_loop_total [OF True win _ sr, of 0 "buf out"] cap [OF True] by auto
  then show ?thesis using d A by (auto simp: extract_band_power_def)
qed

lemma foldl_add_upt: "foldl (\<lambda>s i. s + f i) a [0..<n] = a + (\<Sum>i<n. f i :: real)"
  by (induction n) simp_all

lemma foldl_sub_upt: "foldl (\<lambda>s i. s - f i) a [0..<n] = a - (\<Sum>i<n. f i :: real)"
  by (induction n) simp_all

lemma dot_product_sum: "dot_product a b n = (\<Sum>i<n. a ! i * b ! i)"
  by (simp add: dot_product_def foldl_add_upt)

lemma vector_magnitude_sum: "vector_magnitude a n = sqrt (\<Sum>i<n. (a ! i)\<^sup>2)"
  by (simp add: vector_magnitude_def foldl_add_upt power2_eq_square)

lemma calculate_mean_sum: "calculate_mean xs n = (\<Sum>i<n. xs ! i) / real n"
  by (simp add: calculate_mean_def foldl_add_upt)

lemma calculate_std_dev_sum:
  "calculate_std_dev xs n = sqrt ((\<Sum>i<n. (xs ! i - calculate_mean xs n)\<^sup>2) / real n)"
  by (simp add: calculate_std_dev_def foldl_add_upt power2_eq_square Let_def)

lemma calc_sim:
  assumes "features v1 = Some a" "features v2 = Some b"
    and "unat (fv_size v1) \<le> length a" "unat (fv_size v2) \<le> length b"
  shows "calculate_similarity (Some v1) (Some v2) =
     Inr (if fv_size v1 \<noteq> fv_size v2 \<or> l2_norm a (unat (fv_size v1)) < 1 / 1000000
              \<or> l2_norm b (unat (fv_size v2)) < 1 / 1000000
          then - 1
          else min 1 (max 0 (cosine_similarity a b (unat (fv_size v1)))))"
  using assms
  by (auto simp: calculate_similarity_def dot_product_sum vector_magnitude_sum l2_norm_def
        cosine_similarity_def Let_def min_def max_def)

lemma foldl_update_upt:
  "n \<le> length ofs \<Longrightarrow>
     length (foldl (\<lambda>fs j. fs[j := g j]) ofs [0..<n]) = length ofs \<and>
     (\<forall>j<length ofs. foldl (\<lambda>fs j. fs[j := g j]) ofs [0..<n] ! j = (if j < n then g j else ofs ! j))"
proof (induction n)
  case 0
  then show ?case by simp
next
  case (Suc n)
  then show ?case by (auto simp: nth_list_update less_Suc_eq)
qed

lemma sum_nth_sum_list: "(\<Sum>i<length vs. h (vs ! i)) = (\<Sum>v\<leftarrow>vs. (h v :: real))"
proof -
  have "(\<Sum>v\<leftarrow>vs. h v) = (\<Sum>i = 0..<length (map h vs). map h vs ! i)"
    by (rule sum_list_sum_nth)
  also have "\<dots> = (\<Sum>i<length vs. h (vs ! i))"
    by (simp add: atLeast0LessThan)
  finally show ?thesis by simp
qed

lemma size_check_iff:
  assumes "vs \<noteq> []"
  shows "list_ex (\<lambda>i. fv_size (vs ! i) \<noteq> fv_size (vs ! 0)) [1..<length vs]
          \<longleftrightarrow> (\<exists>v\<in>set vs. fv_size v \<noteq> fv_size (hd vs))"
proof -
  have hd: "vs ! 0 = hd vs" using assms by (simp add: hd_conv_nth)
  show ?thesis
  proof
    assume "list_ex (\<lambda>i. fv_size (vs ! i) \<noteq> fv_size (vs ! 0)) [1..<length vs]"
    then obtain i where "i < length vs" "fv_size (vs ! i) \<noteq> fv_size (hd vs)"
      by (auto simp: list_ex_iff hd)
    then show "\<exists>v\<in>set vs. fv_size v \<noteq> fv_size (hd vs)" using nth_mem by blast
  next
    assume "\<exists>v\<in>set vs. fv_size v \<noteq> fv_size (hd vs)"
    then obtain i where i: "i < length vs" "fv_size (vs ! i) \<noteq> fv_size (hd vs)"
      by (auto simp: in_set_conv_nth)
    then have "0 < i" using hd by (cases i) auto
    with i show "list_ex (\<lambda>i. fv_size (vs ! i) \<noteq> fv_size (vs ! 0)) [1..<length vs]"
      by (auto simp: list_ex_iff hd intro!: bexI [of _ i])
  qed
qed

lemma sum_buf_nth: "(\<Sum>i<length vs. buf (vs ! i) ! j) = (\<Sum>v\<leftarrow>vs. (buf v ! j :: real))"
  by (rule sum_nth_sum_list [of "\<lambda>v. buf v ! j"])

lemma average_value:
  assumes ne: "vs \<noteq> []"
    and eq: "\<forall>v\<in>set vs. fv_size v = fv_size (hd vs)"
    and wf: "\<forall>v\<in>set vs. unat (fv_size v) \<le> length (buf v)"
    and oc: "features out = Some ofs" "unat (fv_size (hd vs)) \<le> length ofs"
  shows "average_feature_vectors (Some vs) (Some out) now =
           Inr (out\<lparr>features := Some (foldl (\<lambda>fs j. fs[j := (\<Sum>v\<leftarrow>vs. buf v ! j) / real (length vs)])
                                         ofs [0..<unat (fv_size (hd vs))]),
                     fv_size := fv_size (hd vs),
                     fv_task_type := fv_task_type (hd vs),
                     fv_timestamp := now\<rparr>)"
proof -
  have hd: "vs ! 0 = hd vs" using ne by (simp add: hd_conv_nth)
  have nomis: "\<not> list_ex (\<lambda>i. fv_size (vs ! i) \<noteq> fv_size (hd vs)) [1..<length vs]"
    using size_check_iff [OF ne] eq by (simp add: hd)
  have safe: "\<not> list_ex (\<lambda>v. length (buf v) < unat (fv_size (hd vs))) vs"
    using wf eq by (auto simp: list_ex_iff)
  have bo: "buf out = ofs" using oc(1) by (simp add: buf_def)
  show ?thesis
    unfolding average_feature_vectors_def Let_def hd foldl_add_upt sum_buf_nth
    using ne nomis safe oc by (simp add: bo hd)
qed

lemma average_ok:
  assumes ne: "vs \<noteq> []"
    and eq: "\<forall>v\<in>set vs. fv_size v = fv_size (hd vs)"
    and wf: "\<forall>v\<in>set vs. unat (fv_size v) \<le> length (buf v)"
    and oc: "features out = Some ofs" "unat (fv_size (hd vs)) \<le> length ofs"
  shows "\<exists>r. average_feature_vectors (Some vs) (Some out) now = Inr r
            \<and> fv_size r = fv_size (hd vs)
            \<and> (\<forall>j<unat (fv_size (hd vs)). buf r ! j = (\<Sum>v\<leftarrow>vs. buf v ! j) / real (length vs))"
proof -
  let ?g = "\<lambda>j. (\<Sum>v\<leftarrow>vs. buf v ! j) / real (length vs)"
  let ?fs = "foldl (\<lambda>fs j. fs[j := ?g j]) ofs [0..<unat (fv_size (hd vs))]"
  let ?r = "out\<lparr>features := Some ?fs, fv_size := fv_size (hd vs),
                 fv_task_type := fv_task_type (hd vs), fv_timestamp := now\<rparr>"
  have val: "\<forall>j<unat (fv_size (hd vs)). ?fs ! j = ?g j"
  proof (intro allI impI)
    fix j assume j: "j < unat (fv_size (hd vs))"
    then have "j < length ofs" using oc(2) by simp
    with foldl_update_upt [OF oc(2), of ?g] j show "?fs ! j = ?g j" by simp
  qed
  have "buf ?r = ?fs" by (simp add: buf_def)
  with val have "\<forall>j<unat (fv_size (hd vs)). buf ?r ! j = ?g j" by simp
  moreover have "fv_size ?r = fv_size (hd vs)" by simp
  moreover have "average_feature_vectors (Some vs) (Some out) now = Inr ?r"
    by (rule average_value [OF assms])
  ultimately show ?thesis by blast
qed


lemma average_empty: "average_feature_vectors (Some []) (Some out) now = Inl Failed"
  by (simp add: average_feature_vectors_def)

lemma average_mismatch:
  assumes "vs \<noteq> []" "\<exists>v\<in>set vs. fv_size v \<noteq> fv_size (hd vs)"
  shows "average_feature_vectors (Some vs) (Some out) now = Inl Failed"
proof -
  have "list_ex (\<lambda>i. fv_size (vs ! i) \<noteq> fv_size (vs ! 0)) [1..<length vs]"
    using size_check_iff [OF assms(1)] assms(2) by simp
  then show ?thesis
    unfolding average_feature_vectors_def Let_def using assms(1) by simp
qed

lemma average_fails_iff:
  assumes wf: "\<forall>v\<in>set vs. unat (fv_size v) \<le> length (buf v)"
    and oc: "features out = Some ofs" "vs \<noteq> [] \<longrightarrow> unat (fv_size (hd vs)) \<le> length ofs"
  shows "average_feature_vectors (Some vs) (Some out) now = Inl Failed
           \<longleftrightarrow> vs = [] \<or> (\<exists>v\<in>set vs. fv_size v \<noteq> fv_size (hd vs))"
proof (cases "vs = []")
  case True
  then show ?thesis by (simp only: average_empty simp_thms)
next
  case ne: False
  show ?thesis
  proof (cases "\<exists>v\<in>set vs. fv_size v \<noteq> fv_size (hd vs)")
    case True
    from average_mismatch [OF ne True] True show ?thesis by (simp only: simp_thms)
  next
    case False
    then have eq: "\<forall>v\<in>set vs. fv_size v = fv_size (hd vs)" by blast
    have "unat (fv_size (hd vs)) \<le> length ofs" using oc(2) ne by blast
    from average_ok [OF ne eq wf oc(1) this, of now]
    obtain r where r: "average_feature_vectors (Some vs) (Some out) now = Inr r" by blast
    have "average_feature_vectors (Some vs) (Some out) now \<noteq> Inl Failed"
      unfolding r by simp
    with ne False show ?thesis by (simp only: simp_thms)
  qed
qed

lemma sum_lessThan_two: "(\<Sum>i<2. f i) = f 0 + (f (Suc 0) :: real)"
  by (simp add: lessThan_Suc numeral_2_eq_2)

lemma feature_vector_alloc_zero:
  "feature_vector_alloc A n = Some out \<Longrightarrow>
     out = \<lparr>features = Some (replicate (unat n) 0), fv_size = n,
            fv_task_type = TASK_EYES_CLOSED_REST, fv_timestamp = 0\<rparr>"
  by (auto simp: feature_vector_alloc_def calloc_def split: if_splits)

lemma l2_norm_zero: "l2_norm (replicate n 0) n = 0"
  by (simp add: l2_norm_def)

lemma calculate_mean_take: "calculate_mean (take n xs) n = calculate_mean xs n"
  by (simp add: calculate_mean_sum)

lemma calculate_std_dev_take: "calculate_std_dev (take n xs) n = calculate_std_dev xs n"
  by (simp add: calculate_std_dev_sum calculate_mean_take)

lemma length_channel: "ch * ns + ns \<le> length xs \<Longrightarrow> length (channel ns xs ch) = ns"
  by (simp add: channel_def)

lemma normalize_channel_eq:
  assumes "ch * ns + ns \<le> length xs"
  shows "normalize_channel ns xs ch =
           take (ch * ns) xs @ centre_and_scale (channel ns xs ch) @ drop (ch * ns + ns) xs"
proof -
  have len: "length (channel ns xs ch) = ns" by (rule length_channel [OF assms])
  have m: "calculate_mean (channel ns xs ch) ns = calculate_mean (drop (ch * ns) xs) ns"
    by (simp add: channel_def calculate_mean_take)
  have s: "calculate_std_dev (channel ns xs ch) ns = calculate_std_dev (drop (ch * ns) xs) ns"
    by (simp add: channel_def calculate_std_dev_take)
  show ?thesis
    unfolding normalize_channel_def centre_and_scale_def Let_def len m s
    by (simp add: channel_def add.commute)
qed

lemma splice_nth:
  assumes "a + length M \<le> length xs" "j < length xs"
  shows "(take a xs @ M @ drop (a + length M) xs) ! j =
           (if j < a then xs ! j else if j < a + length M then M ! (j - a) else xs ! j)"
proof -
  have la: "length (take a xs) = a" using assms(1) by simp
  show ?thesis
  proof (cases "j < a")
    case True
    then show ?thesis using assms by (simp add: nth_append)
  next
    case False
    show ?thesis
    proof (cases "j < a + length M")
      case True
      with False have "j - a < length M" by arith
      with True False show ?thesis using assms by (simp add: nth_append)
    next
      case f2: False
      from False f2 have "\<not> j - a < length M" by arith
      with False assms have "(take a xs @ M @ drop (a + length M) xs) ! j
          = drop (a + length M) xs ! (j - a - length M)"
        by (simp add: nth_append)
      also have "\<dots> = xs ! j" using f2 assms by simp
      finally show ?thesis using False f2 by simp
    qed
  qed
qed

lemma length_centre_and_scale [simp]: "length (centre_and_scale c) = length c"
  by (simp add: centre_and_scale_def Let_def)

lemma channel_normalize_same:
  assumes "ch * ns + ns \<le> length xs"
  shows "channel ns (normalize_channel ns xs ch) ch = centre_and_scale (channel ns xs ch)"
proof -
  have len: "length (channel ns xs ch) = ns" by (rule length_channel [OF assms])
  have "length (take (ch * ns) xs) = ch * ns" using assms by simp
  then show ?thesis
    unfolding normalize_channel_eq [OF assms] channel_def [of ns "_ @ _"]
    using len by simp
qed

lemma channel_normalize_other:
  assumes "ch * ns + ns \<le> length xs" "k * ns + ns \<le> length xs" "k \<noteq> ch"
  shows "channel ns (normalize_channel ns xs ch) k = channel ns xs k"
proof (rule nth_equalityI)
  show "length (channel ns (normalize_channel ns xs ch) k) = length (channel ns xs k)"
    using assms(2) by (simp add: channel_def)
next
  fix i assume "i < length (channel ns (normalize_channel ns xs ch) k)"
  then have i: "i < ns" by (simp add: channel_def)
  let ?M = "centre_and_scale (channel ns xs ch)"
  have lM: "length ?M = ns" by (simp add: length_channel [OF assms(1)])
  have j: "k * ns + i < length xs" using i assms(2) by simp
  have out: "\<not> (ch * ns \<le> k * ns + i \<and> k * ns + i < ch * ns + ns)"
  proof (cases "k < ch")
    case True
    then have "k + 1 \<le> ch" by simp
    then have "(k + 1) * ns \<le> ch * ns" by (rule mult_le_mono1)
    then show ?thesis using i by simp
  next
    case False
    with assms(3) have "ch + 1 \<le> k" by simp
    then have "(ch + 1) * ns \<le> k * ns" by (rule mult_le_mono1)
    then show ?thesis by simp
  qed
  have "normalize_channel ns xs ch ! (k * ns + i) = xs ! (k * ns + i)"
    unfolding normalize_channel_eq [OF assms(1)]
    using splice_nth [of "ch * ns" ?M xs "k * ns + i"] assms(1) j out lM by auto
  then show "channel ns (normalize_channel ns xs ch) k ! i = channel ns xs k ! i"
    using i j assms(2) by (simp add: channel_def)
qed

lemma channel_normalize_fold:
  assumes "distinct chs" and "\<forall>c\<in>set chs. c * ns + ns \<le> length xs" and "k * ns + ns \<le> length xs"
  shows "channel ns (foldl (normalize_channel ns) xs chs) k =
           (if k \<in> set chs then centre_and_scale (channel ns xs k) else channel ns xs k)"
  using assms
proof (induction chs arbitrary: xs)
  case Nil
  then show ?case by simp
next
  case (Cons c chs)
  let ?xs' = "normalize_channel ns xs c"
  have c: "c * ns + ns \<le> length xs" using Cons.prems(2) by simp
  have IH: "channel ns (foldl (normalize_channel ns) ?xs' chs) k =
           (if k \<in> set chs then centre_and_scale (channel ns ?xs' k) else channel ns ?xs' k)"
    using Cons.prems by (intro Cons.IH) simp_all
  show ?case
  proof (cases "k = c")
    case True
    then have "k \<notin> set chs" using Cons.prems(1) by simp
    with IH True show ?thesis by (simp add: channel_normalize_same [OF c])
  next
    case False
    have "channel ns ?xs' k = channel ns xs k"
      by (rule channel_normalize_other [OF c Cons.prems(3) False])
    with IH False show ?thesis by simp
  qed
qed

lemma mean_centre_and_scale:
  assumes "c \<noteq> []"
  shows "calculate_mean (centre_and_scale c) (length c) = 0"
proof -
  let ?n = "length c"
  let ?m = "calculate_mean c ?n"
  define s where "s = (if calculate_std_dev c ?n < 1 / 1000000 then 1 else calculate_std_dev c ?n)"
  have n: "0 < real ?n" using assms by simp
  have m: "(\<Sum>i<?n. c ! i) = real ?n * ?m"
    using n by (simp add: calculate_mean_sum)
  have "(\<Sum>i<?n. centre_and_scale c ! i) = (\<Sum>i<?n. (c ! i - ?m) / s)"
    by (rule sum.cong) (simp_all add: centre_and_scale_def Let_def s_def)
  also have "\<dots> = ((\<Sum>i<?n. c ! i) - real ?n * ?m) / s"
    by (simp add: sum_divide_distrib [symmetric] sum_subtractf)
  also have "\<dots> = 0" using m by simp
  finally show ?thesis by (simp add: calculate_mean_sum)
qed

lemma std_centre_and_scale:
  assumes "1 / 1000000 \<le> calculate_std_dev c (length c)"
  shows "calculate_std_dev (centre_and_scale c) (length c) = 1"
proof -
  let ?n = "length c"
  let ?m = "calculate_mean c ?n"
  let ?s = "calculate_std_dev c ?n"
  have ne: "c \<noteq> []" using assms by (auto simp: calculate_std_dev_def)
  then have n: "0 < real ?n" by simp
  have s: "0 < ?s" using assms by simp
  let ?v = "(\<Sum>i<?n. (c ! i - ?m)\<^sup>2) / real ?n"
  have v0: "0 \<le> ?v" by (simp add: sum_nonneg)
  have sv: "?s = sqrt ?v" by (simp add: calculate_std_dev_sum)
  then have s2: "?s\<^sup>2 = ?v" using v0 by simp
  have cs: "centre_and_scale c ! i = (c ! i - ?m) / ?s" if "i < ?n" for i
    using that assms by (simp add: centre_and_scale_def Let_def)
  have m0: "calculate_mean (centre_and_scale c) ?n = 0" by (rule mean_centre_and_scale [OF ne])
  have "(\<Sum>i<?n. (centre_and_scale c ! i - 0)\<^sup>2) = (\<Sum>i<?n. (c ! i - ?m)\<^sup>2 / ?s\<^sup>2)"
    by (rule sum.cong) (simp_all add: cs power_divide)
  also have "\<dots> = (\<Sum>i<?n. (c ! i - ?m)\<^sup>2) / ?s\<^sup>2"
    by (simp add: sum_divide_distrib)
  finally have "(\<Sum>i<?n. (centre_and_scale c ! i - 0)\<^sup>2) / real ?n = ?v / ?s\<^sup>2"
    by simp
  also have "\<dots> = 1"
  proof -
    have "?s\<^sup>2 \<noteq> 0" using s by simp
    then have "?s\<^sup>2 / ?s\<^sup>2 = 1" by simp
    then show ?thesis by (simp only: s2)
  qed
  finally have "(\<Sum>i<?n. (centre_and_scale c ! i - calculate_mean (centre_and_scale c) ?n)\<^sup>2) / real ?n = 1"
    by (simp only: m0)
  then have "calculate_std_dev (centre_and_scale c) (length (centre_and_scale c)) = 1"
    by (simp only: calculate_std_dev_sum length_centre_and_scale real_sqrt_one)
  then show ?thesis by simp
qed

lemma centre_only:
  assumes "calculate_std_dev c (length c) < 1 / 1000000"
  shows "centre_and_scale c = map (\<lambda>x. x - calculate_mean c (length c)) c"
  using assms by (simp add: centre_and_scale_def Let_def)

lemma sqrt_tiny: "sqrt (1 / 100000000) = 1 / 10000"
  by (rule real_sqrt_unique) (simp_all add: power2_eq_square)

lemma upt4: "[0..<4] = [0, 1, 2, 3]" by (simp add: upt_conv_Cons)
lemma upt8: "[0..<8] = [0, 1, 2, 3, 4, 5, 6, 7]" by (simp add: upt_conv_Cons)
lemma replicate_numeral: "replicate (numeral k) x = x # replicate (pred_numeral k) x"
  by (simp add: numeral_eq_Suc)

lemma fread_start: "fread n (c, 0) = (take n c, (c, min n (length c)))"
  by (simp add: fread_def min_def)

lemma fread_min:
  "fread n (c, min q (length c)) = (take n (drop q c), (c, min (q + n) (length c)))"
  by (cases "q \<le> length c") (auto simp: fread_def min_def)

lemma length_le_bytes [simp]: "length (le_bytes k w) = k"
  by (simp add: le_bytes_def)

lemma after_stage_simps [simp]:
  "after_stage b (Inr a) = Inr a"
  "after_stage b (Inl Failed) = Inr b"
  "after_stage b (Inl Undefined_Behaviour) = Inl Undefined_Behaviour"
  by (simp_all add: after_stage_def)

lemma secure_wipe_Some:
  "secure_wipe (Some a) n = (if n = 0 then Inr () else Inl Undefined_Behaviour)"
  by (simp add: secure_wipe_def)

lemma times4_eq_0:
  fixes w :: size_t
  assumes "unat w * 4 < 2 ^ 64"
  shows "w * 4 = 0 \<longleftrightarrow> w = 0"
proof
  assume z: "w * 4 = 0"
  have "unat (w * 4) = unat w * unat (4 :: size_t)"
    using assms by (simp add: unat_mult_lem [THEN iffD1])
  with z have "unat w * 4 = 0" by simp
  then show "w = 0" by (simp add: unat_eq_0)
qed simp

lemma unat_mult_le:
  fixes a b :: size_t
  assumes "unat a * unat b \<le> unat (a * b)"
  shows "unat (a * b) = unat a * unat b"
proof -
  have "unat (a * b) < 2 ^ 64" using unsigned_less [of "a * b"] by simp
  with assms have "unat a * unat b < 2 ^ LENGTH(64)" by simp
  then show ?thesis by (simp add: unat_mult_lem [THEN iffD1])
qed

lemma unat_mult_eq_0:
  fixes a b :: size_t
  assumes "unat a * unat b = 0"
  shows "a * b = 0"
  using assms by (auto simp: unat_eq_0)

lemma band_power_channel_not_failed: "band_power_channel e xs st ch \<noteq> Inl Failed"
  by (auto simp: band_power_channel_def compute_fft_def Let_def
           split: prod.splits sum.splits if_splits)

lemma band_power_loop_not_failed: "band_power_loop e xs st chs \<noteq> Inl Failed"
proof (induction chs arbitrary: st)
  case Nil
  show ?case by simp
next
  case (Cons ch chs)
  show ?case
  proof (cases "band_power_channel e xs st ch")
    case (Inl err)
    then have "err \<noteq> Failed" using band_power_channel_not_failed [of e xs st ch] by auto
    with Inl show ?thesis by simp
  next
    case (Inr st')
    then show ?thesis using Cons.IH [of st'] by simp
  qed
qed

lemma extract_band_power_failed:
  assumes "data e = Some xs" "extract_band_power A (Some e) (Some out) = Inl Failed"
  shows "\<not> A (WINDOW_SIZE div 2 * 4)"
proof
  assume A: "A (WINDOW_SIZE div 2 * 4)"
  show False
  proof (cases "band_power_loop e xs (0, buf out) [0..<unat (num_channels e)]")
    case (Inl err)
    then have "err \<noteq> Failed"
      using band_power_loop_not_failed [of e xs "(0, buf out)" "[0..<unat (num_channels e)]"] by auto
    with Inl assms A show False by (simp add: extract_band_power_def)
  next
    case (Inr st)
    with assms A show False by (simp add: extract_band_power_def split: prod.splits)
  qed
qed

lemma extract_band_power_empty:
  assumes d: "data e = Some xs"
    and z: "unat (num_channels e) * unat (num_samples e) = 0"
    and A: "A (WINDOW_SIZE div 2 * 4)"
  shows "extract_band_power A (Some e) (Some out) = Inr out"
proof (cases "unat (num_samples e) = 0")
  case True
  then have "unat (num_samples e) < WINDOW_SIZE" by (simp add: WINDOW_SIZE_def)
  then show ?thesis using d A by (simp add: extract_band_power_short [where A = A])
next
  case False
  with z have nc: "unat (num_channels e) = 0" by simp
  have "out\<lparr>features := map_option (\<lambda>_. buf out) (features out)\<rparr> = out"
    by (cases "features out") (simp_all add: buf_def)
  then show ?thesis using d A nc by (simp add: extract_band_power_def)
qed

lemma extract_features_cases:
  assumes d: "data e = Some xs"
  shows "extract_features A (Some e) (Some out) now =
    (if \<not> A 48 \<or> \<not> (unat (num_channels e * num_samples e) * 4 < 2 ^ 64
                       \<and> A (unat (num_channels e * num_samples e) * 4)) then Inl Failed
     else if length xs < unat (num_channels e * num_samples e)
             \<or> unat (num_channels e * num_samples e) < unat (num_channels e) * unat (num_samples e)
          then Inl Undefined_Behaviour
     else (case extract_band_power A (Some (normalized_copy e xs)) (Some out) of
             Inl Undefined_Behaviour \<Rightarrow> Inl Undefined_Behaviour
           | Inl Failed \<Rightarrow>
               if num_channels e * num_samples e = 0 then Inl Failed else Inl Undefined_Behaviour
           | Inr out' \<Rightarrow>
               if num_channels e * num_samples e = 0
               then Inr (out'\<lparr>fv_task_type := eeg_task_type e, fv_timestamp := now\<rparr>)
               else Inl Undefined_Behaviour))"
proof -
  let ?nc = "unat (num_channels e)" and ?ns = "unat (num_samples e)"
  let ?n = "unat (num_channels e * num_samples e)"
  show ?thesis
  proof (cases "A 48 \<and> ?n * 4 < 2 ^ 64 \<and> A (?n * 4)")
    case False
    then show ?thesis using d
      by (auto simp: extract_features_def eeg_data_alloc_def calloc_def)
  next
    case True
    then have alloc: "eeg_data_alloc A (num_channels e) (num_samples e)
       = Some \<lparr>data = Some (replicate ?n 0), num_channels = num_channels e,
               num_samples = num_samples e, sampling_rate = SAMPLING_RATE, eeg_timestamp = 0,
               eeg_task_type = TASK_EYES_CLOSED_REST\<rparr>"
      by (simp add: eeg_data_alloc_def calloc_def)
    define f0 where "f0 = \<lparr>data = Some (take ?n xs), num_channels = num_channels e,
      num_samples = num_samples e, sampling_rate = sampling_rate e, eeg_timestamp = 0,
      eeg_task_type = TASK_EYES_CLOSED_REST\<rparr>"
    have d0: "data f0 = Some (take ?n xs)" by (simp add: f0_def)
    note st = stub_ok [OF d0]
    show ?thesis
    proof (cases "length xs < ?n")
      case True
      then show ?thesis using d alloc \<open>A 48 \<and> ?n * 4 < 2 ^ 64 \<and> A (?n * 4)\<close>
        by (simp add: extract_features_def)
    next
      case len: False
      show ?thesis
      proof (cases "?n < ?nc * ?ns")
        case True
        then have "normalize_signal (Some f0) = Inl Undefined_Behaviour"
          using len by (simp add: normalize_signal_def f0_def Let_def)
        then show ?thesis using d alloc len True \<open>A 48 \<and> ?n * 4 < 2 ^ 64 \<and> A (?n * 4)\<close>
          by (simp add: extract_features_def Let_def f0_def [symmetric] st)
      next
        case False
        then have prod: "?n = ?nc * ?ns" by (simp add: unat_mult_le)
        have norm: "normalize_signal (Some f0) = Inr (normalized_copy e xs)"
          using len prod by (simp add: normalize_signal_def f0_def normalized_copy_def Let_def)
        have free: "eeg_data_free (Some (normalized_copy e xs))
                      = (if num_channels e * num_samples e = 0 then Inr ()
                         else Inl Undefined_Behaviour)"
          using True times4_eq_0 [of "num_channels e * num_samples e"]
          by (simp add: eeg_data_free_def normalized_copy_def secure_wipe_Some)
        show ?thesis
          using d alloc len False \<open>A 48 \<and> ?n * 4 < 2 ^ 64 \<and> A (?n * 4)\<close> norm
          by (simp add: extract_features_def Let_def f0_def [symmetric] st free
                   split: sum.splits error.splits)
      qed
    qed
  qed
qed

lemma extract_features_empty:
  assumes d: "data e = Some xs"
    and z: "unat (num_channels e) * unat (num_samples e) = 0"
    and A: "A 48" "A 0" "A (WINDOW_SIZE div 2 * 4)"
  shows "extract_features A (Some e) (Some out) now
           = Inr (out\<lparr>fv_task_type := eeg_task_type e, fv_timestamp := now\<rparr>)"
proof -
  have w: "num_channels e * num_samples e = 0" using z by (rule unat_mult_eq_0)
  have "extract_band_power A (Some (normalized_copy e xs)) (Some out) = Inr out"
    using z A(3) by (intro extract_band_power_empty) (simp_all add: normalized_copy_def)
  then show ?thesis using A z w by (simp add: extract_features_cases [OF d])
qed

lemma extract_features_returns:
  assumes "extract_features A (Some e) (Some out) now = Inr r"
  shows "unat (num_channels e) * unat (num_samples e) = 0
         \<and> r = out\<lparr>fv_task_type := eeg_task_type e, fv_timestamp := now\<rparr>"
proof (cases "data e")
  case None
  with assms show ?thesis by (simp add: extract_features_def)
next
  case (Some xs)
  note c = assms [unfolded extract_features_cases [OF Some]]
  from c have A: "A 48" "A (unat (num_channels e * num_samples e) * 4)"
    and le: "unat (num_channels e) * unat (num_samples e) \<le> unat (num_channels e * num_samples e)"
    by (auto split: if_splits)
  from c have w: "num_channels e * num_samples e = 0"
    by (auto split: if_splits sum.splits error.splits)
  with le have z: "unat (num_channels e) * unat (num_samples e) = 0" by simp
  have "extract_band_power A (Some (normalized_copy e xs)) (Some out) \<noteq> Inl Failed"
    using c by (auto split: if_splits sum.splits error.splits)
  moreover have "\<not> A (WINDOW_SIZE div 2 * 4) \<Longrightarrow>
      extract_band_power A (Some (normalized_copy e xs)) (Some out) = Inl Failed"
    by (simp add: extract_band_power_def normalized_copy_def)
  ultimately have A3: "A (WINDOW_SIZE div 2 * 4)" by blast
  from A(2) w have A0: "A 0" by simp
  from extract_features_empty [OF Some z A(1) A0 A3, of out now] assms z show ?thesis by simp
qed

lemma extract_features_failed:
  assumes "extract_features A (Some e) (Some out) now = Inl Failed"
  shows "data e = None \<or> eeg_data_alloc A (num_channels e) (num_samples e) = None
         \<or> \<not> A (WINDOW_SIZE div 2 * 4)"
proof (cases "data e")
  case None
  then show ?thesis by simp
next
  case (Some xs)
  note c = assms [unfolded extract_features_cases [OF Some]]
  show ?thesis
  proof (cases "eeg_data_alloc A (num_channels e) (num_samples e)")
    case None
    then show ?thesis by simp
  next
    case (Some fd)
    then have "A 48 \<and> unat (num_channels e * num_samples e) * 4 < 2 ^ 64
               \<and> A (unat (num_channels e * num_samples e) * 4)"
      by (auto simp: eeg_data_alloc_def calloc_def split: if_splits)
    with c have "extract_band_power A (Some (normalized_copy e xs)) (Some out) = Inl Failed"
      by (auto split: if_splits sum.splits error.splits)
    then have "\<not> A (WINDOW_SIZE div 2 * 4)"
      by (intro extract_band_power_failed [where e = "normalized_copy e xs" and out = out])
         (simp_all add: normalized_copy_def)
    then show ?thesis by simp
  qed
qed

lemma template_authenticate_no_return:
  "template_authenticate A trial template result now_ms now \<noteq> Inr r"
proof (cases "\<exists>tr t res. trial = Some tr \<and> template = Some t \<and> result = Some res")
  case False
  then show ?thesis
    by (auto simp: template_authenticate_def split: option.splits)
next
  case True
  then obtain tr t res where args: "trial = Some tr" "template = Some t" "result = Some res"
    by blast
  show ?thesis
  proof (cases "feature_vector_alloc A FEATURE_VECTOR_SIZE :: real FeatureVector option")
    case None
    with args show ?thesis by (simp add: template_authenticate_def)
  next
    case (Some fresh)
    from feature_vector_alloc_zero [OF Some]
    have fresh: "features fresh = Some (replicate 40 0)" "fv_size fresh = 40"
      by (simp_all add: FEATURE_VECTOR_SIZE_def)
    have free: "feature_vector_free (Some fresh) = Inl Undefined_Behaviour"
      using fresh by (simp add: feature_vector_free_def secure_wipe_Some)
    show ?thesis
    proof (cases "extract_features A (Some tr) (Some fresh) now_ms")
      case (Inl err)
      with args Some free show ?thesis
        by (cases err) (simp_all add: template_authenticate_def)
    next
      case (Inr tf)
      from extract_features_returns [OF Inr]
      have "features tf = Some (replicate 40 0)" "fv_size tf = 40" using fresh by simp_all
      then have "feature_vector_free (Some tf) = Inl Undefined_Behaviour"
        by (simp add: feature_vector_free_def secure_wipe_Some)
      with args Some Inr show ?thesis
        by (simp add: template_authenticate_def split: sum.splits)
    qed
  qed
qed

lemmas store_eval = template_save_def template_save_open_def create_directory_def fopen_wb_def
  TEMPLATE_DIR_def template_save_writes_def
  template_load_def save_then_load_def fread_def fseek_cur_def overlay_def store_le_def
  le_word_def le_bytes_def upt4 upt8 feature_vector_alloc_def hash_data_alloc_def calloc_def
  feature_vector_free_def secure_wipe_def
  template_alloc_def empty_disk_def buf_def Let_def TASK_EYES_CLOSED_REST_def replicate_numeral

lemma template_load_outcomes:
  assumes "files fs path = Some content"
  shows "(template_load fs A g (Some path) (Some out) = Inl Failed \<longrightarrow>
            feature_vector_alloc A (load_feature_size content g)
              = (None :: 32 word FeatureVector option)
          \<or> hash_data_alloc A (load_hash_size content g) (load_salt_size content g) = None)
       \<and> (feature_vector_alloc A (load_feature_size content g)
              \<noteq> (None :: 32 word FeatureVector option)
          \<and> hash_data_alloc A (load_hash_size content g) (load_salt_size content g) \<noteq> None
          \<and> 16 + load_hash_size content g \<noteq> 2 ^ 63
          \<longrightarrow> (\<exists>t. template_load fs A g (Some path) (Some out) = Inr t))"
  using assms
  by (simp add: template_load_def fread_start fread_min Let_def load_feature_size_def
        load_hash_size_def load_salt_size_def split: option.splits prod.splits sum.splits)

lemma truncated_load_eval:
  "template_load (truncate_file ''./templates/alice.nlt'' 280 saved_disk) unbounded_memory
        \<lparr>l_feature_size = 0, l_hash_size = 0, l_salt_size = 0\<rparr>
        (Some ''./templates/alice.nlt'') (template_alloc unbounded_memory)
     = Inr (enrolled_template
             \<lparr>t_hash := Some
                \<lparr>hash = Some
                   [0, 0, 153, 67, 0, 0, 79, 66, 0, 0, 132, 65, 0, 0, 255, 66,
            0, 128, 174, 66, 0, 128, 153, 67, 0, 0, 83, 66, 0, 0, 140, 65],
                 hash_size = 32,
                 salt = Some
                   [32, 0, 0, 0, 0, 0, 0, 0, 65, 65, 64, 222, 93, 174, 34, 35,
                   0, 0, 0, 0, 0, 0, 0, 0, 0, 0, 0, 0, 0, 0, 0, 0],
                 salt_size = 32\<rparr>,
              t_features := Some (enrolled_features\<lparr>fv_timestamp := 0\<rparr>)\<rparr>)"
  by (simp add: store_eval saved_disk_def truncate_file_def unbounded_memory_def
        enrolled_template_def enrolled_features_def low_hash_def)

lemma truncated_lengths:
  "map_option length (files saved_disk ''./templates/alice.nlt'') = Some 336
   \<and> map_option length (files (truncate_file ''./templates/alice.nlt'' 280 saved_disk)
                           ''./templates/alice.nlt'') = Some 280"
  by (simp add: store_eval saved_disk_def truncate_file_def enrolled_template_def
        enrolled_features_def low_hash_def)

lemma truncated_sizes:
  "files (truncate_file ''./templates/alice.nlt'' 280 saved_disk) ''./templates/alice.nlt''
     = Some content \<Longrightarrow>
   load_feature_size content \<lparr>l_feature_size = 0, l_hash_size = 0, l_salt_size = 0\<rparr> = 40
   \<and> load_hash_size content \<lparr>l_feature_size = 0, l_hash_size = 0, l_salt_size = 0\<rparr> = 32
   \<and> load_salt_size content \<lparr>l_feature_size = 0, l_hash_size = 0, l_salt_size = 0\<rparr> = 32"
  by (auto simp: store_eval saved_disk_def truncate_file_def enrolled_template_def
        enrolled_features_def low_hash_def load_feature_size_def load_hash_size_def
        load_salt_size_def)

lemma saved_disk_eval:
  "template_save empty_disk (Some (enrolled_template\<lparr>t_hash := Some low_hash\<rparr>))
     (Some ''./templates/alice.nlt'') = Inr saved_disk"
  by (simp add: store_eval saved_disk_def enrolled_template_def enrolled_features_def low_hash_def)

lemma saved_disk_state:
  "dirs saved_disk = {''./templates''} \<and> writable saved_disk = (\<lambda>p. True)"
  by (simp add: store_eval saved_disk_def enrolled_template_def enrolled_features_def low_hash_def)

lemma save_writes_size:
  "112 \<le> length (concat (template_save_writes t fv h))"
  by (simp add: template_save_writes_def)

section \<open>The claims\<close>

subsection \<open>Stub stages of the pipeline (C2)\<close>

text \<open>
  A recording of one channel and two samples, well-formed and not empty: each of the three
  stub stages returns success and hands the data back as it was. No stage reports that it
  is not implemented.
\<close>

theorem stub_stages_counterexample:
  "filter_bandpass
     (Some \<lparr>data = Some [1, 3], num_channels = 1, num_samples = 2, sampling_rate = 256,
            eeg_timestamp = 0, eeg_task_type = 2\<rparr>) HIGHPASS_CUTOFF LOWPASS_CUTOFF
     = Inr \<lparr>data = Some [1, 3], num_channels = 1, num_samples = 2, sampling_rate = 256,
            eeg_timestamp = 0, eeg_task_type = 2\<rparr>
   \<and> filter_notch
     (Some \<lparr>data = Some [1, 3], num_channels = 1, num_samples = 2, sampling_rate = 256,
            eeg_timestamp = 0, eeg_task_type = 2\<rparr>) NOTCH_FREQ
     = Inr \<lparr>data = Some [1, 3], num_channels = 1, num_samples = 2, sampling_rate = 256,
            eeg_timestamp = 0, eeg_task_type = 2\<rparr>
   \<and> remove_eye_artifacts
     (Some \<lparr>data = Some [1, 3], num_channels = 1, num_samples = 2, sampling_rate = 256,
            eeg_timestamp = 0, eeg_task_type = 2\<rparr>)
     = Inr \<lparr>data = Some [1, 3], num_channels = 1, num_samples = 2, sampling_rate = 256,
            eeg_timestamp = 0, eeg_task_type = 2\<rparr>"
  by (simp add: filter_bandpass_def filter_notch_def remove_eye_artifacts_def)

text \<open>
  \<^bold>\<open>Claim C2\<close>, as the code has it. For every input whose sample array is present,
  \<^verbatim>\<open>filter_bandpass\<close>, \<^verbatim>\<open>filter_notch\<close> and \<^verbatim>\<open>remove_eye_artifacts\<close> return success and leave
  the data unchanged. \<^verbatim>\<open>extract_features\<close> does not look at their return codes, so no stage
  makes it fail: when it returns -1 for such an input, the working copy or the buffer for
  the spectrum could not be allocated.
\<close>

theorem stub_stages_succeed:
  assumes "data e = Some xs"
  shows "filter_bandpass (Some e) low high = Inr e
       \<and> filter_notch (Some e) notch = Inr e
       \<and> remove_eye_artifacts (Some e) = Inr e
       \<and> (extract_features A (Some e) (Some out) now = Inl Failed \<longrightarrow>
            eeg_data_alloc A (num_channels e) (num_samples e) = None
            \<or> \<not> A (WINDOW_SIZE div 2 * 4))"
  using stub_ok [OF assms] extract_features_failed [of A e out now] assms by auto

theorem stub_stages_succeed_witness:
  "filter_bandpass
     (Some \<lparr>data = Some [1, 3], num_channels = 1, num_samples = 2, sampling_rate = 256,
            eeg_timestamp = 0, eeg_task_type = 2\<rparr>) HIGHPASS_CUTOFF LOWPASS_CUTOFF
     = Inr \<lparr>data = Some [1, 3], num_channels = 1, num_samples = 2, sampling_rate = 256,
            eeg_timestamp = 0, eeg_task_type = 2\<rparr>
   \<and> extract_features (memory_limit 0)
     (Some \<lparr>data = Some [1, 3], num_channels = 1, num_samples = 2, sampling_rate = 256,
            eeg_timestamp = 0, eeg_task_type = 2\<rparr>)
     (Some \<lparr>features = Some [0, 0, 0, 0, 0], fv_size = 5, fv_task_type = 0, fv_timestamp = 0\<rparr>) 7
     = Inl Failed
   \<and> eeg_data_alloc (memory_limit 0) 1 2 = None"
  using stub_stages_succeed
    [of "\<lparr>data = Some [1, 3], num_channels = 1, num_samples = 2, sampling_rate = 256,
            eeg_timestamp = 0, eeg_task_type = 2\<rparr>" "[1, 3]" HIGHPASS_CUTOFF LOWPASS_CUTOFF
        NOTCH_FREQ "memory_limit 0"
        "\<lparr>features = Some [0, 0, 0, 0, 0], fv_size = 5, fv_task_type = 0, fv_timestamp = 0\<rparr>" 7]
  by (simp add: extract_features_def eeg_data_alloc_def memory_limit_def)

subsection \<open>Similarity (C5)\<close>

text \<open>
  \<^bold>\<open>Claim C5.\<close> For two feature vectors whose arrays hold at least \<open>size\<close> elements,
  \<^verbatim>\<open>calculate_similarity\<close> returns the cosine similarity \<open>dot(a,b) / (\<parallel>a\<parallel> \<sqdot> \<parallel>b\<parallel>)\<close> clamped to
  \<open>[0, 1]\<close> when the sizes agree and both magnitudes are at least \<open>10\<^sup>-\<^sup>6\<close>, and the value
  \<open>- 1\<close>, which is a float outside \<open>[0, 1]\<close> and not an error return, when the sizes differ
  or a magnitude is below \<open>10\<^sup>-\<^sup>6\<close>.
\<close>

theorem calculate_similarity_cosine:
  assumes "features v1 = Some a" and "features v2 = Some b"
    and "unat (fv_size v1) \<le> length a" and "unat (fv_size v2) \<le> length b"
  shows "calculate_similarity (Some v1) (Some v2) =
           Inr (if fv_size v1 = fv_size v2
                   \<and> 1 / 1000000 \<le> l2_norm a (unat (fv_size v1))
                   \<and> 1 / 1000000 \<le> l2_norm b (unat (fv_size v2))
                then min 1 (max 0 (cosine_similarity a b (unat (fv_size v1))))
                else - 1)
         \<and> min 1 (max 0 (cosine_similarity a b (unat (fv_size v1)))) \<in> {0..1}
         \<and> (- 1 :: real) \<notin> {0..1}"
  using calc_sim [OF assms] by (auto simp: not_less)

theorem calculate_similarity_cosine_witness:
  "calculate_similarity
     (Some \<lparr>features = Some [0, 2], fv_size = 2, fv_task_type = 0, fv_timestamp = 0\<rparr>)
     (Some \<lparr>features = Some [0, 2], fv_size = 2, fv_task_type = 0, fv_timestamp = 0\<rparr>) = Inr 1
   \<and> calculate_similarity
     (Some \<lparr>features = Some [0, 0], fv_size = 2, fv_task_type = 0, fv_timestamp = 0\<rparr>)
     (Some \<lparr>features = Some [0, 2], fv_size = 2, fv_task_type = 0, fv_timestamp = 0\<rparr>) = Inr (- 1)"
  using calculate_similarity_cosine
          [of "\<lparr>features = Some [0, 2], fv_size = 2, fv_task_type = 0, fv_timestamp = 0\<rparr>" "[0, 2]"
              "\<lparr>features = Some [0, 2], fv_size = 2, fv_task_type = 0, fv_timestamp = 0\<rparr>" "[0, 2]"]
        calculate_similarity_cosine
          [of "\<lparr>features = Some [0, 0], fv_size = 2, fv_task_type = 0, fv_timestamp = 0\<rparr>" "[0, 0]"
              "\<lparr>features = Some [0, 2], fv_size = 2, fv_task_type = 0, fv_timestamp = 0\<rparr>" "[0, 2]"]
  by (simp add: l2_norm_def cosine_similarity_def sum_lessThan_two)

subsection \<open>Averaging (C6)\<close>

text \<open>
  \<^bold>\<open>Claim C6.\<close> Let \<open>vs\<close> be the \<open>N\<close> vectors, each with an array of at least \<open>size\<close>
  elements, and let the output array have room for the size of the first. Then
  \<^verbatim>\<open>average_feature_vectors\<close> fails exactly when \<open>N = 0\<close> or the size of some vector differs
  from the size of the first; otherwise it succeeds, the output takes that size, and its
  element \<open>j\<close> is the arithmetic mean of the elements \<open>j\<close> of the \<open>N\<close> vectors. For \<open>N = 1\<close> the
  elements are those of the single vector.
\<close>

theorem average_feature_vectors_mean:
  assumes "\<forall>v\<in>set vs. unat (fv_size v) \<le> length (buf v)"
    and "features out = Some ofs"
    and "vs \<noteq> [] \<longrightarrow> unat (fv_size (hd vs)) \<le> length ofs"
  shows "(average_feature_vectors (Some vs) (Some out) now = Inl Failed
            \<longleftrightarrow> vs = [] \<or> (\<exists>v\<in>set vs. fv_size v \<noteq> fv_size (hd vs)))
       \<and> (vs \<noteq> [] \<and> (\<forall>v\<in>set vs. fv_size v = fv_size (hd vs)) \<longrightarrow>
            (\<exists>r. average_feature_vectors (Some vs) (Some out) now = Inr r
                \<and> fv_size r = fv_size (hd vs)
                \<and> (\<forall>j<unat (fv_size (hd vs)).
                      buf r ! j = (\<Sum>v\<leftarrow>vs. buf v ! j) / real (length vs))
                \<and> (length vs = 1 \<longrightarrow> (\<forall>j<unat (fv_size (hd vs)). buf r ! j = buf (hd vs) ! j))))"
proof (intro conjI impI)
  show "average_feature_vectors (Some vs) (Some out) now = Inl Failed
            \<longleftrightarrow> vs = [] \<or> (\<exists>v\<in>set vs. fv_size v \<noteq> fv_size (hd vs))"
    by (rule average_fails_iff [OF assms])
next
  assume h: "vs \<noteq> [] \<and> (\<forall>v\<in>set vs. fv_size v = fv_size (hd vs))"
  from h have ne: "vs \<noteq> []" by (rule conjunct1)
  from h have eq: "\<forall>v\<in>set vs. fv_size v = fv_size (hd vs)" by (rule conjunct2)
  have cap: "unat (fv_size (hd vs)) \<le> length ofs" using assms(3) ne by (rule mp)
  from average_ok [OF ne eq assms(1,2) cap, of now]
  obtain r where r: "average_feature_vectors (Some vs) (Some out) now = Inr r"
      "fv_size r = fv_size (hd vs)"
      "\<forall>j<unat (fv_size (hd vs)). buf r ! j = (\<Sum>v\<leftarrow>vs. buf v ! j) / real (length vs)"
    by blast
  have "length vs = 1 \<longrightarrow> (\<forall>j<unat (fv_size (hd vs)). buf r ! j = buf (hd vs) ! j)"
  proof
    assume "length vs = 1"
    then obtain v where "vs = [v]" by (cases vs) auto
    with r(3) show "\<forall>j<unat (fv_size (hd vs)). buf r ! j = buf (hd vs) ! j" by simp
  qed
  then have "average_feature_vectors (Some vs) (Some out) now = Inr r
                \<and> fv_size r = fv_size (hd vs)
                \<and> (\<forall>j<unat (fv_size (hd vs)).
                      buf r ! j = (\<Sum>v\<leftarrow>vs. buf v ! j) / real (length vs))
                \<and> (length vs = 1 \<longrightarrow> (\<forall>j<unat (fv_size (hd vs)). buf r ! j = buf (hd vs) ! j))"
    using r by (intro conjI)
  then show "\<exists>r. average_feature_vectors (Some vs) (Some out) now = Inr r
                \<and> fv_size r = fv_size (hd vs)
                \<and> (\<forall>j<unat (fv_size (hd vs)).
                      buf r ! j = (\<Sum>v\<leftarrow>vs. buf v ! j) / real (length vs))
                \<and> (length vs = 1 \<longrightarrow> (\<forall>j<unat (fv_size (hd vs)). buf r ! j = buf (hd vs) ! j))"
    by (rule exI)
qed

theorem average_feature_vectors_mean_witness:
  "average_feature_vectors
     (Some [\<lparr>features = Some [1, 3], fv_size = 2, fv_task_type = 1, fv_timestamp = 0\<rparr>,
            \<lparr>features = Some [3, 7], fv_size = 2, fv_task_type = 1, fv_timestamp = 0\<rparr>])
     (Some \<lparr>features = Some [0, 0], fv_size = 2, fv_task_type = 0, fv_timestamp = 0\<rparr>) 9
     \<noteq> Inl Failed
   \<and> average_feature_vectors
     (Some [\<lparr>features = Some [1, 3], fv_size = 2, fv_task_type = 1, fv_timestamp = 0\<rparr>,
            \<lparr>features = Some [3, 7, 8], fv_size = 3, fv_task_type = 1, fv_timestamp = 0\<rparr>])
     (Some \<lparr>features = Some [0, 0], fv_size = 2, fv_task_type = 0, fv_timestamp = 0\<rparr>) 9
     = Inl Failed"
  using average_feature_vectors_mean
     [of "[\<lparr>features = Some [1, 3], fv_size = 2, fv_task_type = 1, fv_timestamp = 0\<rparr>,
            \<lparr>features = Some [3, 7], fv_size = 2, fv_task_type = 1, fv_timestamp = 0\<rparr>]"
         "\<lparr>features = Some [0, 0], fv_size = 2, fv_task_type = 0, fv_timestamp = 0\<rparr>" "[0, 0]" 9]
     average_feature_vectors_mean
     [of "[\<lparr>features = Some [1, 3], fv_size = 2, fv_task_type = 1, fv_timestamp = 0\<rparr>,
            \<lparr>features = Some [3, 7, 8], fv_size = 3, fv_task_type = 1, fv_timestamp = 0\<rparr>]"
         "\<lparr>features = Some [0, 0], fv_size = 2, fv_task_type = 0, fv_timestamp = 0\<rparr>" "[0, 0]" 9]
  by (simp add: buf_def)

subsection \<open>Recordings shorter than the window (C7)\<close>

text \<open>
  \<^bold>\<open>Claim C7.\<close> When the recording has fewer than \<open>WINDOW_SIZE = 256\<close> samples per channel
  and the output vector comes from \<^verbatim>\<open>feature_vector_alloc\<close>, \<^verbatim>\<open>extract_band_power\<close> succeeds
  (given the memory for its spectrum buffer) and leaves the output as allocated: every
  element is zero, in particular the five slots of every channel. The zeros are those of
  \<^verbatim>\<open>calloc\<close>; the function itself writes nothing in this case.
\<close>

theorem extract_band_power_short_recording:
  assumes "data e = Some xs"
    and "unat (num_samples e) < WINDOW_SIZE"
    and "A (WINDOW_SIZE div 2 * 4)"
    and "feature_vector_alloc A n = Some out"
  shows "extract_band_power A (Some e) (Some out) = Inr out
       \<and> buf out = replicate (unat n) 0
       \<and> (\<forall>ch<unat (num_channels e). \<forall>b<5. 5 * ch + b < unat n \<longrightarrow> buf out ! (5 * ch + b) = 0)"
proof -
  have "buf out = replicate (unat n) 0"
    using feature_vector_alloc_zero [OF assms(4)] by (simp add: buf_def)
  then show ?thesis
    using extract_band_power_short [where A = A and e = e and out = out, OF assms(1,2,3)] by simp
qed

theorem extract_band_power_short_recording_witness:
  "extract_band_power unbounded_memory
     (Some \<lparr>data = Some [1, 3, 2, 4], num_channels = 2, num_samples = 2, sampling_rate = 256,
            eeg_timestamp = 0, eeg_task_type = 2\<rparr>)
     (Some \<lparr>features = Some (replicate 40 0), fv_size = 40,
            fv_task_type = TASK_EYES_CLOSED_REST, fv_timestamp = 0\<rparr>)
   = Inr \<lparr>features = Some (replicate 40 0), fv_size = 40,
          fv_task_type = TASK_EYES_CLOSED_REST, fv_timestamp = 0\<rparr>"
  using extract_band_power_short_recording
    [of "\<lparr>data = Some [1, 3, 2, 4], num_channels = 2, num_samples = 2, sampling_rate = 256,
            eeg_timestamp = 0, eeg_task_type = 2\<rparr>" "[1, 3, 2, 4]" unbounded_memory 40
        "\<lparr>features = Some (replicate 40 0), fv_size = 40,
            fv_task_type = TASK_EYES_CLOSED_REST, fv_timestamp = 0\<rparr>"]
  by (simp add: unbounded_memory_def WINDOW_SIZE_def feature_vector_alloc_def calloc_def)

subsection \<open>Normalisation (C8)\<close>

text \<open>
  A constant channel \<open>[5, 5]\<close> has deviation 0, below the threshold, and is not left
  unchanged: the mean is subtracted and the channel becomes \<open>[0, 0]\<close>. The channel
  \<open>[0, 1/5000]\<close> has variance \<open>10\<^sup>-\<^sup>8\<close>, below \<open>10\<^sup>-\<^sup>6\<close>, and is normalised all the same, to
  \<open>[-1, 1]\<close>: the threshold applies to the standard deviation, not to the variance.
\<close>

theorem normalize_signal_counterexample:
  "normalize_signal
     (Some \<lparr>data = Some [5, 5], num_channels = 1, num_samples = 2, sampling_rate = 256,
            eeg_timestamp = 0, eeg_task_type = 0\<rparr>)
     = Inr \<lparr>data = Some [0, 0], num_channels = 1, num_samples = 2, sampling_rate = 256,
            eeg_timestamp = 0, eeg_task_type = 0\<rparr>
   \<and> calculate_std_dev [5, 5] 2 = 0
   \<and> normalize_signal
     (Some \<lparr>data = Some [0, 1 / 5000], num_channels = 1, num_samples = 2, sampling_rate = 256,
            eeg_timestamp = 0, eeg_task_type = 0\<rparr>)
     = Inr \<lparr>data = Some [- 1, 1], num_channels = 1, num_samples = 2, sampling_rate = 256,
            eeg_timestamp = 0, eeg_task_type = 0\<rparr>
   \<and> (calculate_std_dev [0, 1 / 5000] 2)\<^sup>2 = 1 / 100000000"
proof -
  have m1: "calculate_mean [5, 5] 2 = 5"
    by (simp add: calculate_mean_sum sum_lessThan_two)
  have s1: "calculate_std_dev [5, 5] 2 = 0"
    by (simp add: calculate_std_dev_sum sum_lessThan_two m1)
  have m2: "calculate_mean [0, 1 / 5000] 2 = 1 / 10000"
    by (simp add: calculate_mean_sum sum_lessThan_two)
  have s2: "calculate_std_dev [0, 1 / 5000] 2 = 1 / 10000"
    by (simp add: calculate_std_dev_sum sum_lessThan_two m2 power2_eq_square sqrt_tiny)
  have u: "[0..<unat (1 :: 64 word)] = [0]" by simp
  show ?thesis
    by (simp add: normalize_signal_def normalize_channel_def Let_def u m1 s1 m2 s2 power2_eq_square)
qed

text \<open>
  \<^bold>\<open>Claim C8\<close>, as the code has it. For every channel of a recording whose sample array
  holds \<open>num_channels * num_samples\<close> samples, \<^verbatim>\<open>normalize_signal\<close> succeeds and replaces each
  sample \<open>x\<close> of the channel by \<open>(x - mean) / std_dev\<close>, where \<open>std_dev\<close> is taken as 1 when the
  standard deviation of the channel is below \<open>10\<^sup>-\<^sup>6\<close>. The channel then has mean zero; it has
  unit deviation when its deviation was at least \<open>10\<^sup>-\<^sup>6\<close>; and when the deviation was below
  \<open>10\<^sup>-\<^sup>6\<close> it is the old channel with the mean subtracted, not the old channel.
\<close>

theorem normalize_signal_centres_and_scales:
  assumes "data e = Some xs"
    and "unat (num_channels e) * unat (num_samples e) \<le> length xs"
    and "ch < unat (num_channels e)"
  shows "\<exists>ys. normalize_signal (Some e) = Inr (e\<lparr>data := Some ys\<rparr>)
           \<and> length ys = length xs
           \<and> channel (unat (num_samples e)) ys ch
               = centre_and_scale (channel (unat (num_samples e)) xs ch)
           \<and> (0 < unat (num_samples e) \<longrightarrow>
                calculate_mean (channel (unat (num_samples e)) ys ch) (unat (num_samples e)) = 0)
           \<and> (1 / 1000000 \<le> calculate_std_dev (channel (unat (num_samples e)) xs ch) (unat (num_samples e)) \<longrightarrow>
                calculate_std_dev (channel (unat (num_samples e)) ys ch) (unat (num_samples e)) = 1)
           \<and> (calculate_std_dev (channel (unat (num_samples e)) xs ch) (unat (num_samples e)) < 1 / 1000000 \<longrightarrow>
                channel (unat (num_samples e)) ys ch
                  = map (\<lambda>x. x - calculate_mean (channel (unat (num_samples e)) xs ch) (unat (num_samples e)))
                        (channel (unat (num_samples e)) xs ch))"
proof -
  let ?nc = "unat (num_channels e)" and ?ns = "unat (num_samples e)"
  let ?ys = "foldl (normalize_channel ?ns) xs [0..<?nc]"
  let ?c = "channel ?ns xs ch"
  have bound: "c * ?ns + ?ns \<le> length xs" if "c < ?nc" for c
  proof -
    from that have "c + 1 \<le> ?nc" by simp
    then have "(c + 1) * ?ns \<le> ?nc * ?ns" by (rule mult_le_mono1)
    with assms(2) show ?thesis by simp
  qed
  have lc: "length ?c = ?ns" by (rule length_channel [OF bound [OF assms(3)]])
  have run: "normalize_signal (Some e) = Inr (e\<lparr>data := Some ?ys\<rparr>)"
    using assms(1,2) by (simp add: normalize_signal_def Let_def)
  have ch: "channel ?ns ?ys ch = centre_and_scale ?c"
    using channel_normalize_fold [of "[0..<?nc]" ?ns xs ch] bound assms(3) by simp
  have mean: "0 < ?ns \<longrightarrow> calculate_mean (channel ?ns ?ys ch) ?ns = 0"
  proof
    assume "0 < ?ns"
    then have "?c \<noteq> []" using lc by auto
    from mean_centre_and_scale [OF this] show "calculate_mean (channel ?ns ?ys ch) ?ns = 0"
      by (simp only: ch lc)
  qed
  have std: "1 / 1000000 \<le> calculate_std_dev ?c ?ns \<longrightarrow> calculate_std_dev (channel ?ns ?ys ch) ?ns = 1"
  proof
    assume "1 / 1000000 \<le> calculate_std_dev ?c ?ns"
    then have "1 / 1000000 \<le> calculate_std_dev ?c (length ?c)" by (simp only: lc)
    from std_centre_and_scale [OF this] show "calculate_std_dev (channel ?ns ?ys ch) ?ns = 1"
      by (simp only: ch lc)
  qed
  have low: "calculate_std_dev ?c ?ns < 1 / 1000000 \<longrightarrow>
      channel ?ns ?ys ch = map (\<lambda>x. x - calculate_mean ?c ?ns) ?c"
  proof
    assume "calculate_std_dev ?c ?ns < 1 / 1000000"
    then have "calculate_std_dev ?c (length ?c) < 1 / 1000000" by (simp only: lc)
    from centre_only [OF this] show "channel ?ns ?ys ch = map (\<lambda>x. x - calculate_mean ?c ?ns) ?c"
      by (simp only: ch lc)
  qed
  have "length ?ys = length xs" by simp
  with run ch mean std low show ?thesis by (intro exI [of _ ?ys] conjI)
qed

theorem normalize_signal_centres_and_scales_witness:
  "\<exists>ys. normalize_signal
     (Some \<lparr>data = Some [1, 3, 5, 5], num_channels = 2, num_samples = 2, sampling_rate = 256,
            eeg_timestamp = 0, eeg_task_type = 0\<rparr>)
     = Inr \<lparr>data = Some ys, num_channels = 2, num_samples = 2, sampling_rate = 256,
            eeg_timestamp = 0, eeg_task_type = 0\<rparr>
     \<and> calculate_mean (channel 2 ys 1) 2 = 0"
  using normalize_signal_centres_and_scales
    [of "\<lparr>data = Some [1, 3, 5, 5], num_channels = 2, num_samples = 2, sampling_rate = 256,
            eeg_timestamp = 0, eeg_task_type = 0\<rparr>" "[1, 3, 5, 5]" 1]
  by auto

subsection \<open>Determinism of feature extraction (C9)\<close>




subsection \<open>Authentication when the comparison fails (C10)\<close>

text \<open>
  \<^bold>\<open>Claim C10\<close> does not hold of the code. The comparison fails as the claim describes:
  for a trial without samples \<^verbatim>\<open>extract_features\<close> returns the zeros of \<^verbatim>\<open>calloc\<close>, and
  \<^verbatim>\<open>calculate_similarity\<close> yields \<open>- 1\<close> for a vector of magnitude zero. The fields of the
  result are then set, but before \<^verbatim>\<open>template_authenticate\<close> returns 0 it releases the trial
  features through \<^verbatim>\<open>feature_vector_free\<close>, and \<^verbatim>\<open>secure_wipe\<close>, asked to clear their 160
  bytes, goes on to clear \<^verbatim>\<open>SIZE_MAX\<close> bytes: the call runs out of bounds and does not
  return 0. The same release stands before the other exit, so that no call of
  \<^verbatim>\<open>template_authenticate\<close> returns success (lemma \<open>template_authenticate_no_return\<close>).
\<close>

theorem template_authenticate_wipe_out_of_bounds:
  "extract_features unbounded_memory
     (Some \<lparr>data = Some [], num_channels = 8, num_samples = 0, sampling_rate = 256,
            eeg_timestamp = 0, eeg_task_type = 2\<rparr>)
     (Some \<lparr>features = Some (replicate 40 0), fv_size = 40, fv_task_type = 0, fv_timestamp = 0\<rparr>)
     1000
     = Inr \<lparr>features = Some (replicate 40 0), fv_size = 40, fv_task_type = 2, fv_timestamp = 1000\<rparr>
   \<and> calculate_similarity
     (Some \<lparr>features = Some (replicate 40 0), fv_size = 40, fv_task_type = 2, fv_timestamp = 1000\<rparr>)
     (Some \<lparr>features = Some (replicate 40 1), fv_size = 40, fv_task_type = 2, fv_timestamp = 0\<rparr>)
     = Inr (- 1)
   \<and> feature_vector_free
     (Some \<lparr>features = Some (replicate 40 (0 :: real)), fv_size = 40, fv_task_type = 2,
            fv_timestamp = 1000\<rparr>)
     = Inl Undefined_Behaviour
   \<and> template_authenticate unbounded_memory
     (Some \<lparr>data = Some [], num_channels = 8, num_samples = 0, sampling_rate = 256,
            eeg_timestamp = 0, eeg_task_type = 2\<rparr>)
     (Some \<lparr>username = [], t_hash = None,
            t_features = Some \<lparr>features = Some (replicate 40 1), fv_size = 40,
                                fv_task_type = 2, fv_timestamp = 0\<rparr>,
            task_type = 2, created_at = 0, last_used = 0, version = 1\<rparr>)
     (Some \<lparr>authenticated = 0, similarity_score = 0, timestamp = 0, attempts = 0\<rparr>) 1000 1
     = Inl Undefined_Behaviour"
proof -
  let ?tr = "\<lparr>data = Some [], num_channels = 8, num_samples = 0, sampling_rate = 256,
            eeg_timestamp = 0, eeg_task_type = 2\<rparr>"
  let ?fresh = "\<lparr>features = Some (replicate 40 (0 :: real)), fv_size = 40,
                 fv_task_type = 0, fv_timestamp = 0\<rparr>"
  let ?tf = "\<lparr>features = Some (replicate 40 (0 :: real)), fv_size = 40,
              fv_task_type = 2, fv_timestamp = 1000\<rparr>"
  let ?st = "\<lparr>features = Some (replicate 40 (1 :: real)), fv_size = 40,
              fv_task_type = 2, fv_timestamp = 0\<rparr>"
  have a: "feature_vector_alloc unbounded_memory FEATURE_VECTOR_SIZE = Some ?fresh"
    by (simp add: feature_vector_alloc_def calloc_def unbounded_memory_def FEATURE_VECTOR_SIZE_def
          TASK_EYES_CLOSED_REST_def)
  have b: "extract_features unbounded_memory (Some ?tr) (Some ?fresh) 1000 = Inr ?tf"
    by (subst extract_features_empty [where xs = "[]"])
       (simp_all add: unbounded_memory_def)
  have c: "calculate_similarity (Some ?tf) (Some ?st) = Inr (- 1)"
    using calc_sim [of ?tf "replicate 40 0" ?st "replicate 40 1"] l2_norm_zero [of 40] by simp
  have d: "feature_vector_free (Some ?tf) = Inl Undefined_Behaviour"
    by (simp add: feature_vector_free_def secure_wipe_Some)
  have "template_authenticate unbounded_memory (Some ?tr)
     (Some \<lparr>username = [], t_hash = None, t_features = Some ?st,
            task_type = 2, created_at = 0, last_used = 0, version = 1\<rparr>)
     (Some \<lparr>authenticated = 0, similarity_score = 0, timestamp = 0, attempts = 0\<rparr>) 1000 1
     = Inl Undefined_Behaviour"
    using a b c d by (simp add: template_authenticate_def)
  with b c d show ?thesis by simp
qed

subsection \<open>Round trip through the file (C1)\<close>

text \<open>
  \<^bold>\<open>Claim C1\<close> does not hold of the code. \<^verbatim>\<open>template_save\<close> writes \<^verbatim>\<open>hash_size\<close>, the
  hash, \<^verbatim>\<open>salt_size\<close>, the salt; \<^verbatim>\<open>template_load\<close> reads \<^verbatim>\<open>hash_size\<close> and then takes the
  first eight bytes of the hash for \<^verbatim>\<open>salt_size\<close>, and its \<^verbatim>\<open>fseek\<close> calls put the position
  \<^verbatim>\<open>hash_size\<close> bytes before the \<^verbatim>\<open>hash_size\<close> field. For the example template, whose digest
  begins \<open>ba 78 16 bf 8f 01 cf ea\<close>, the salt size read is about \<open>1.7 \<sqdot> 10\<^sup>1\<^sup>9\<close>, the allocation
  fails under any allocator that refuses more than \<open>2\<^sup>4\<^sup>0\<close> bytes, and the exit taken then
  releases the forty features through \<^verbatim>\<open>feature_vector_free\<close>, whose \<^verbatim>\<open>secure_wipe\<close> runs out
  of bounds: loading the saved file does not succeed. With a digest that begins
  \<open>32, 0, 0, 0, 0, 0, 0, 0\<close> loading succeeds, username, task label, time stamps and feature
  values are reproduced, but the hash returned is the last 32 bytes of the feature array
  and the salt returned is the saved hash.
\<close>

theorem template_roundtrip_broken:
  "save_then_load empty_disk (memory_limit (2 ^ 40))
      \<lparr>l_feature_size = 0, l_hash_size = 0, l_salt_size = 0\<rparr>
      enrolled_template ''./templates/alice.nlt'' (template_alloc (memory_limit (2 ^ 40)))
     = Inl Undefined_Behaviour
   \<and> save_then_load empty_disk unbounded_memory
      \<lparr>l_feature_size = 0, l_hash_size = 0, l_salt_size = 0\<rparr>
      (enrolled_template\<lparr>t_hash := Some low_hash\<rparr>) ''./templates/alice.nlt''
      (template_alloc unbounded_memory)
     = Inr (enrolled_template
             \<lparr>t_hash := Some
                \<lparr>hash = Some
                   [0, 0, 153, 67, 0, 0, 79, 66, 0, 0, 132, 65, 0, 0, 255, 66,
            0, 128, 174, 66, 0, 128, 153, 67, 0, 0, 83, 66, 0, 0, 140, 65],
                 hash_size = 32,
                 salt = Some
                   [32, 0, 0, 0, 0, 0, 0, 0, 65, 65, 64, 222, 93, 174, 34, 35,
                   176, 3, 97, 163, 150, 23, 122, 156, 180, 16, 255, 97, 242, 0, 21, 173],
                 salt_size = 32\<rparr>,
              t_features := Some (enrolled_features\<lparr>fv_timestamp := 0\<rparr>)\<rparr>)"
  by (simp add: store_eval memory_limit_def unbounded_memory_def enrolled_template_def
        enrolled_features_def low_hash_def)

subsection \<open>Validation on load (C3)\<close>

text \<open>
  The saved file of 336 bytes, cut to its first 280 bytes: the salt, its length field and
  half of the hash are missing. \<^verbatim>\<open>template_load\<close> reports success; the bytes it could not
  read are the zeros of \<^verbatim>\<open>calloc\<close>.
\<close>

theorem template_load_truncated_counterexample:
  "map_option length (files saved_disk ''./templates/alice.nlt'') = Some 336
   \<and> map_option length (files (truncate_file ''./templates/alice.nlt'' 280 saved_disk)
                           ''./templates/alice.nlt'') = Some 280
   \<and> template_load (truncate_file ''./templates/alice.nlt'' 280 saved_disk) unbounded_memory
        \<lparr>l_feature_size = 0, l_hash_size = 0, l_salt_size = 0\<rparr>
        (Some ''./templates/alice.nlt'') (template_alloc unbounded_memory)
     = Inr (enrolled_template
             \<lparr>t_hash := Some
                \<lparr>hash = Some
                   [0, 0, 153, 67, 0, 0, 79, 66, 0, 0, 132, 65, 0, 0, 255, 66,
            0, 128, 174, 66, 0, 128, 153, 67, 0, 0, 83, 66, 0, 0, 140, 65],
                 hash_size = 32,
                 salt = Some
                   [32, 0, 0, 0, 0, 0, 0, 0, 65, 65, 64, 222, 93, 174, 34, 35,
                   0, 0, 0, 0, 0, 0, 0, 0, 0, 0, 0, 0, 0, 0, 0, 0],
                 salt_size = 32\<rparr>,
              t_features := Some (enrolled_features\<lparr>fv_timestamp := 0\<rparr>)\<rparr>)"
  using truncated_lengths truncated_load_eval by simp

text \<open>
  \<^bold>\<open>Claim C3\<close>, as the code has it. \<^verbatim>\<open>template_load\<close> checks no length field and no result
  of \<^verbatim>\<open>fread\<close> or \<^verbatim>\<open>fseek\<close>. For a file that can be opened it returns -1 only when
  \<^verbatim>\<open>feature_vector_alloc\<close> fails for the feature count as read or \<^verbatim>\<open>hash_data_alloc\<close> fails
  for the two sizes as read, and it reports success whenever both allocations succeed
  (\<^verbatim>\<open>16 + hash_size\<close> not being \<open>2\<^sup>6\<^sup>3\<close>, which the code negates as a \<^verbatim>\<open>long\<close>). What the file
  holds otherwise, and whether it ends early, plays no part.
\<close>

theorem template_load_no_validation:
  assumes "files fs path = Some content"
  shows "(template_load fs A g (Some path) (Some out) = Inl Failed \<longrightarrow>
            feature_vector_alloc A (load_feature_size content g)
              = (None :: 32 word FeatureVector option)
          \<or> hash_data_alloc A (load_hash_size content g) (load_salt_size content g) = None)
       \<and> (feature_vector_alloc A (load_feature_size content g)
              \<noteq> (None :: 32 word FeatureVector option)
          \<and> hash_data_alloc A (load_hash_size content g) (load_salt_size content g) \<noteq> None
          \<and> 16 + load_hash_size content g \<noteq> 2 ^ 63
          \<longrightarrow> (\<exists>t. template_load fs A g (Some path) (Some out) = Inr t))"
  using assms by (rule template_load_outcomes)

theorem template_load_no_validation_witness:
  "template_load (truncate_file ''./templates/alice.nlt'' 280 saved_disk) (memory_limit 0)
        \<lparr>l_feature_size = 0, l_hash_size = 0, l_salt_size = 0\<rparr>
        (Some ''./templates/alice.nlt'') (template_alloc unbounded_memory) = Inl Failed
   \<and> feature_vector_alloc (memory_limit 0) 40 = (None :: 32 word FeatureVector option)
   \<and> (\<exists>t. template_load (truncate_file ''./templates/alice.nlt'' 280 saved_disk)
             unbounded_memory \<lparr>l_feature_size = 0, l_hash_size = 0, l_salt_size = 0\<rparr>
             (Some ''./templates/alice.nlt'') (template_alloc unbounded_memory) = Inr t)"
proof -
  let ?g = "\<lparr>l_feature_size = 0, l_hash_size = 0, l_salt_size = 0\<rparr>"
  let ?out = "\<lparr>username = replicate 64 0, t_hash = None,
               t_features = (None :: 32 word FeatureVector option), task_type = 0,
               created_at = 0, last_used = 0, version = 0\<rparr>"
  have t: "template_alloc unbounded_memory = Some ?out"
    by (simp add: template_alloc_def unbounded_memory_def)
  from truncated_lengths obtain content where
    c: "files (truncate_file ''./templates/alice.nlt'' 280 saved_disk) ''./templates/alice.nlt''
          = Some content"
    by auto
  have sz: "load_feature_size content ?g = 40" "load_hash_size content ?g = 32"
    "load_salt_size content ?g = 32"
    using truncated_sizes [OF c] by simp_all
  have fv: "feature_vector_alloc unbounded_memory 40 \<noteq> (None :: 32 word FeatureVector option)"
    by (simp add: feature_vector_alloc_def calloc_def unbounded_memory_def)
  have h: "hash_data_alloc unbounded_memory 32 32 \<noteq> None"
    by (simp add: hash_data_alloc_def calloc_def unbounded_memory_def)
  have ok: "\<exists>t. template_load (truncate_file ''./templates/alice.nlt'' 280 saved_disk)
             unbounded_memory ?g (Some ''./templates/alice.nlt'') (Some ?out) = Inr t"
    using template_load_no_validation [OF c, of unbounded_memory ?g ?out] fv sz h by simp
  have no: "feature_vector_alloc (memory_limit 0) 40 = (None :: 32 word FeatureVector option)"
    by (simp add: feature_vector_alloc_def memory_limit_def)
  have "template_load (truncate_file ''./templates/alice.nlt'' 280 saved_disk) (memory_limit 0)
          ?g (Some ''./templates/alice.nlt'') (Some ?out) = Inl Failed"
    using c by (simp add: template_load_def feature_vector_alloc_def memory_limit_def
                     fread_start fread_min Let_def split: prod.splits)
  with ok no show ?thesis by (simp add: t)
qed

subsection \<open>Atomicity of saving (C4)\<close>

text \<open>
  The destination holds a complete template of 336 bytes. A save of another template to
  this path has cut the file to length zero as soon as \<^verbatim>\<open>fopen\<close> has returned: an
  interruption before the stream is flushed leaves an empty file where the template was.
\<close>

theorem template_save_interrupted_counterexample:
  "map_option length (files saved_disk ''./templates/alice.nlt'') = Some 336
   \<and> template_save_open saved_disk (Some enrolled_template) (Some ''./templates/alice.nlt'')
     = Inr (saved_disk\<lparr>files := (files saved_disk)(''./templates/alice.nlt'' \<mapsto> [])\<rparr>)"
  using truncated_lengths saved_disk_state
  by (simp add: template_save_open_def create_directory_def fopen_wb_def TEMPLATE_DIR_def)

text \<open>
  \<^bold>\<open>Claim C4\<close>, as the code has it. \<^verbatim>\<open>template_save\<close> opens the destination itself with
  \<^verbatim>\<open>fopen(filepath, "wb")\<close> and writes the record through that stream; there is no
  temporary path and no rename. For a save that succeeds when it runs to the end: once the
  destination is opened it exists and is empty, whatever it held before; at the end it
  holds the whole record, of 112 bytes at least; no other file is changed at either point,
  and the only directory that may have been made is \<^verbatim>\<open>TEMPLATE_DIR\<close>.
\<close>

theorem template_save_in_place:
  assumes "template_save fs (Some t) (Some path) = Inr fs'"
  shows "\<exists>opened fv h.
           template_save_open fs (Some t) (Some path) = Inr opened
         \<and> files opened path = Some []
         \<and> t_features t = Some fv \<and> t_hash t = Some h
         \<and> files fs' path = Some (concat (template_save_writes t fv h))
         \<and> 112 \<le> length (concat (template_save_writes t fv h))
         \<and> (\<forall>p. p \<noteq> path \<longrightarrow> files opened p = files fs p \<and> files fs' p = files fs p)
         \<and> dirs fs' = dirs opened
         \<and> dirs opened = (if TEMPLATE_DIR \<in> dirs fs \<or> files fs TEMPLATE_DIR \<noteq> None
                           then dirs fs else insert TEMPLATE_DIR (dirs fs))"
proof -
  from assms obtain opened where op: "template_save_open fs (Some t) (Some path) = Inr opened"
    by (auto simp: template_save_def split: sum.splits)
  from assms op obtain fv h where fh: "t_features t = Some fv" "t_hash t = Some h"
    by (auto simp: template_save_def split: option.splits)
  from assms op fh have full:
    "fs' = opened\<lparr>files := (files opened)(path \<mapsto> concat (template_save_writes t fv h))\<rparr>"
    by (auto simp: template_save_def split: if_splits)
  from op obtain fs1 where cd: "create_directory fs TEMPLATE_DIR = Inr fs1"
    and fo: "fopen_wb fs1 path = Some opened"
    by (auto simp: template_save_open_def split: sum.splits option.splits)
  from cd have fs1: "files fs1 = files fs"
    "dirs fs1 = (if TEMPLATE_DIR \<in> dirs fs \<or> files fs TEMPLATE_DIR \<noteq> None
                 then dirs fs else insert TEMPLATE_DIR (dirs fs))"
    by (auto simp: create_directory_def split: if_splits)
  from fo have opened: "opened = fs1\<lparr>files := (files fs1)(path \<mapsto> [])\<rparr>"
    by (auto simp: fopen_wb_def split: if_splits)
  show ?thesis
    apply (rule exI [of _ opened])
    apply (rule exI [of _ fv])
    apply (rule exI [of _ h])
    using op fh full fs1 opened save_writes_size [of t fv h] by simp
qed

theorem template_save_in_place_witness:
  "template_save empty_disk (Some (enrolled_template\<lparr>t_hash := Some low_hash\<rparr>))
     (Some ''./templates/alice.nlt'') = Inr saved_disk
   \<and> (\<exists>opened.
          template_save_open empty_disk (Some (enrolled_template\<lparr>t_hash := Some low_hash\<rparr>))
            (Some ''./templates/alice.nlt'') = Inr opened
        \<and> files opened ''./templates/alice.nlt'' = Some []
        \<and> dirs saved_disk = dirs opened)"
proof -
  from template_save_in_place [OF saved_disk_eval]
  obtain opened where
    "template_save_open empty_disk (Some (enrolled_template\<lparr>t_hash := Some low_hash\<rparr>))
            (Some ''./templates/alice.nlt'') = Inr opened"
    "files opened ''./templates/alice.nlt'' = Some []"
    "dirs saved_disk = dirs opened"
    by auto
  then have "\<exists>opened.
          template_save_open empty_disk (Some (enrolled_template\<lparr>t_hash := Some low_hash\<rparr>))
            (Some ''./templates/alice.nlt'') = Inr opened
        \<and> files opened ''./templates/alice.nlt'' = Some []
        \<and> dirs saved_disk = dirs opened"
    by (intro exI conjI)
  with saved_disk_eval show ?thesis by (rule conjI)
qed

end
